theory Spec2Isabelle
  imports Complex_Main
begin

section \<open>PointerJS: the pointer renderer and the flow sequencer\<close>

text \<open>
  A shallow embedding of the classes \<open>Pointer\<close> (the renderer) and \<open>FlowManager\<close>
  (the sequencer) and of the entry point \<open>startOnboarding\<close>.

  \<^item> JavaScript numbers are IEEE doubles. The animation closure (\<open>elapsed\<close>, \<open>ease\<close>,
    \<open>animate\<close>) computes in the type \<open>jsnum\<close>: every operation rounds its exact result to
    the nearest double, ties to even, with subnormals and overflow to an infinity, and
    NaN and the infinities are values. Only the sign of zero is left out: a zero divisor
    counts as \<open>+0\<close>. The layout arithmetic outside the closure is idealised as \<open>real\<close>,
    and the numbers the closure is given are taken to be doubles.
  \<^item> Every method takes the object and the browser state and returns both, updated.
  \<^item> Callbacks handed to \<open>setTimeout\<close>, \<open>requestAnimationFrame\<close> and
    \<open>addEventListener\<close> are recorded in the browser state as data; each callback body is
    a function of its own, run on the state at the time the browser fires it.
  \<^item> The overlay container, the shadow root, the injected style sheet and the SVG icon
    are not modelled, nor is \<open>destroy\<close>, which only removes the container: no other
    method reads them back.
\<close>

subsection \<open>JavaScript operators\<close>

text \<open>\<open>a ?? d\<close>: the default is taken only for \<open>undefined\<close>/\<open>null\<close>.\<close>

definition nullish :: "'a option \<Rightarrow> 'a \<Rightarrow> 'a" where
  "nullish v d = (case v of None \<Rightarrow> d | Some x \<Rightarrow> x)"

text \<open>Truthiness of an optional string: \<open>undefined\<close> and the empty string are falsy.\<close>

definition truthy :: "string option \<Rightarrow> bool" where
  "truthy v = (case v of None \<Rightarrow> False | Some s \<Rightarrow> s \<noteq> [])"

text \<open>\<open>a || d\<close> on an optional string.\<close>

definition or_default :: "string option \<Rightarrow> string \<Rightarrow> string" where
  "or_default v d = (if truthy v then the v else d)"

subsection \<open>Double arithmetic\<close>

text \<open>
  \<open>rne\<close> rounds to the nearest integer, ties to even. \<open>ulp x\<close> is the spacing of the
  doubles around \<open>x\<close>: \<open>2^(e - 52)\<close> for \<open>2^e \<le> |x| < 2^(e + 1)\<close>, and the smallest
  subnormal below the smallest normal number. \<open>fl x\<close> is the double an operation with the
  exact result \<open>x\<close> returns.
\<close>

datatype jsnum = Fin real | PosInf | NegInf | NaN

definition rne :: "real \<Rightarrow> int" where
  "rne y = (let f = \<lfloor>y\<rfloor>; d = y - of_int f
            in if d < 1 / 2 then f else if 1 / 2 < d then f + 1
               else if even f then f else f + 1)"

definition min_normal :: real where
  "min_normal = 1 / 2 ^ 1022"

definition min_subnormal :: real where
  "min_subnormal = 1 / 2 ^ 1074"

definition overflow_threshold :: real where
  "overflow_threshold = 2 ^ 1024"

function ulp :: "real \<Rightarrow> real" where
  "ulp x = (if \<bar>x\<bar> < min_normal then min_subnormal
            else if 2 ^ 53 \<le> \<bar>x\<bar> then 2 * ulp (x / 2)
            else if \<bar>x\<bar> < 2 ^ 52 then ulp (2 * x) / 2
            else 1)"
  by pat_completeness auto
termination
proof (relation "measure (\<lambda>x. nat \<bar>\<lfloor>log 2 \<bar>x\<bar>\<rfloor> - 52\<bar>)")
  show "wf (measure (\<lambda>x. nat \<bar>\<lfloor>log 2 \<bar>x\<bar>\<rfloor> - 52\<bar>))"
    by simp
next
  fix x :: real
  assume big: "2 ^ 53 \<le> \<bar>x\<bar>"
  have "2 powr (real 53) \<le> \<bar>x\<bar>"
    using big by (simp add: powr_realpow)
  moreover have "(0::real) < 2 ^ 53"
    by simp
  with big have pos: "0 < \<bar>x\<bar>"
    by linarith
  ultimately have "real 53 \<le> log 2 \<bar>x\<bar>"
    by (simp add: le_log_iff)
  then have ge: "53 \<le> \<lfloor>log 2 \<bar>x\<bar>\<rfloor>"
    by (simp add: le_floor_iff)
  have "\<lfloor>log 2 \<bar>x / 2\<bar>\<rfloor> = \<lfloor>log 2 \<bar>x\<bar>\<rfloor> - 1"
    using pos by (simp add: log_divide)
  with ge show "(x / 2, x) \<in> measure (\<lambda>x. nat \<bar>\<lfloor>log 2 \<bar>x\<bar>\<rfloor> - 52\<bar>)"
    by simp
next
  fix x :: real
  assume normal: "\<not> \<bar>x\<bar> < min_normal" and lt: "\<bar>x\<bar> < 2 ^ 52"
  have "0 < min_normal"
    by (simp add: min_normal_def)
  with normal have pos: "0 < \<bar>x\<bar>"
    by linarith
  have "\<bar>x\<bar> < 2 powr (real 52)"
    using lt by (simp add: powr_realpow)
  then have "log 2 \<bar>x\<bar> < real 52"
    using pos by (simp add: log_less_iff)
  then have less: "\<lfloor>log 2 \<bar>x\<bar>\<rfloor> < 52"
    by (simp add: floor_less_iff)
  have "\<lfloor>log 2 \<bar>2 * x\<bar>\<rfloor> = \<lfloor>log 2 \<bar>x\<bar>\<rfloor> + 1"
    using pos by (simp add: abs_mult log_mult)
  with less show "(2 * x, x) \<in> measure (\<lambda>x. nat \<bar>\<lfloor>log 2 \<bar>x\<bar>\<rfloor> - 52\<bar>)"
    by simp
qed

definition fl :: "real \<Rightarrow> jsnum" where
  "fl x = (let r = ulp x * of_int (rne (x / ulp x))
           in if overflow_threshold \<le> r then PosInf
              else if r \<le> - overflow_threshold then NegInf
              else Fin r)"

text \<open>The operators \<open>+\<close>, unary and binary \<open>-\<close>, \<open>*\<close>, \<open>/\<close>, \<open><\<close>, \<open>>\<close> and
  \<open>Math.min\<close>.\<close>

fun js_add :: "jsnum \<Rightarrow> jsnum \<Rightarrow> jsnum" where
  "js_add (Fin a) (Fin b) = fl (a + b)"
| "js_add NaN _ = NaN"
| "js_add _ NaN = NaN"
| "js_add PosInf NegInf = NaN"
| "js_add NegInf PosInf = NaN"
| "js_add PosInf _ = PosInf"
| "js_add _ PosInf = PosInf"
| "js_add NegInf _ = NegInf"
| "js_add _ NegInf = NegInf"

fun js_neg :: "jsnum \<Rightarrow> jsnum" where
  "js_neg (Fin a) = Fin (- a)"
| "js_neg PosInf = NegInf"
| "js_neg NegInf = PosInf"
| "js_neg NaN = NaN"

definition js_sub :: "jsnum \<Rightarrow> jsnum \<Rightarrow> jsnum" where
  "js_sub x y = js_add x (js_neg y)"

fun js_mul :: "jsnum \<Rightarrow> jsnum \<Rightarrow> jsnum" where
  "js_mul (Fin a) (Fin b) = fl (a * b)"
| "js_mul NaN _ = NaN"
| "js_mul _ NaN = NaN"
| "js_mul (Fin a) PosInf = (if a = 0 then NaN else if 0 < a then PosInf else NegInf)"
| "js_mul (Fin a) NegInf = (if a = 0 then NaN else if 0 < a then NegInf else PosInf)"
| "js_mul PosInf (Fin b) = (if b = 0 then NaN else if 0 < b then PosInf else NegInf)"
| "js_mul NegInf (Fin b) = (if b = 0 then NaN else if 0 < b then NegInf else PosInf)"
| "js_mul PosInf PosInf = PosInf"
| "js_mul PosInf NegInf = NegInf"
| "js_mul NegInf PosInf = NegInf"
| "js_mul NegInf NegInf = PosInf"

fun js_div :: "jsnum \<Rightarrow> jsnum \<Rightarrow> jsnum" where
  "js_div (Fin a) (Fin b) =
     (if b = 0 then (if a = 0 then NaN else if 0 < a then PosInf else NegInf)
      else fl (a / b))"
| "js_div NaN _ = NaN"
| "js_div _ NaN = NaN"
| "js_div (Fin a) PosInf = Fin 0"
| "js_div (Fin a) NegInf = Fin 0"
| "js_div PosInf (Fin b) = (if 0 \<le> b then PosInf else NegInf)"
| "js_div NegInf (Fin b) = (if 0 \<le> b then NegInf else PosInf)"
| "js_div PosInf PosInf = NaN"
| "js_div PosInf NegInf = NaN"
| "js_div NegInf PosInf = NaN"
| "js_div NegInf NegInf = NaN"

fun js_lt :: "jsnum \<Rightarrow> jsnum \<Rightarrow> bool" where
  "js_lt (Fin a) (Fin b) = (a < b)"
| "js_lt NaN _ = False"
| "js_lt _ NaN = False"
| "js_lt _ NegInf = False"
| "js_lt NegInf _ = True"
| "js_lt PosInf _ = False"
| "js_lt _ PosInf = True"

definition js_gt :: "jsnum \<Rightarrow> jsnum \<Rightarrow> bool" where
  "js_gt x y = js_lt y x"

definition js_min :: "jsnum \<Rightarrow> jsnum \<Rightarrow> jsnum" where
  "js_min x y = (if x = NaN \<or> y = NaN then NaN else if js_lt x y then x else y)"

text \<open>
  Assigning \<open>`${v}px`\<close> to a style coordinate: with a \<open>v\<close> that is not finite the text
  is not a length and the browser keeps the old value.
\<close>

definition px :: "jsnum \<Rightarrow> real option \<Rightarrow> real option" where
  "px v old = (case v of Fin r \<Rightarrow> Some r | _ \<Rightarrow> old)"

subsection \<open>The browser\<close>

type_synonym elem = nat

record rect =
  rect_top :: real
  rect_bottom :: real
  rect_left :: real
  rect_right :: real

datatype pointer_style = Arrow | Hand | Circle

record PointerOptions =
  color :: "string option"
  fontFamily :: "string option"
  fontSize :: "string option"
  animationSpeed :: "real option"
  pointerSize :: "real option"
  pointerStyle :: "pointer_style option"

text \<open>
  The variables the closure \<open>animate\<close> captures in \<open>animateTo\<close>: one record per
  animation in flight.
\<close>

record animation =
  a_x :: real
  a_y :: real
  a_note :: "string option"
  a_isFirstStep :: bool
  a_flip :: bool
  a_duration :: real
  a_startX :: real
  a_startY :: real
  a_deltaX :: real
  a_deltaY :: real
  a_startTime :: real
  a_pointerSize :: real
  a_noteWidth :: real
  a_noteHeight :: real

text \<open>
  The callbacks given to \<open>setTimeout\<close>. \<open>MoveTimeout\<close> is the arrow function of
  \<open>moveToElement\<close>; it captures the target, the note, the first-step flag and the
  viewport size read when \<open>moveToElement\<close> was called. \<open>NoteReveal\<close> is the one that
  reveals a first-step note. \<open>RunStepTimeout\<close> is the one that resumes the flow after a
  navigation.
\<close>

datatype timeout =
  MoveTimeout elem "string option" bool real real
  | NoteReveal
  | RunStepTimeout

datatype query_result = Invalid | NoMatch | Match elem

datatype warning = NoStepsProvided | ElementNotFound string nat

datatype exception = SyntaxError | TypeError

record browser =
  innerWidth :: real
  innerHeight :: real
  scrollY :: real
  performance_now :: real
  getBoundingClientRect :: "elem \<Rightarrow> rect"
  noteMetrics :: "string \<Rightarrow> real \<times> real"
  querySelector :: "string \<Rightarrow> query_result"
  pathname :: string
  bodyOverflow :: string
  scrollToCalls :: "real list"
  timeouts :: "(real \<times> timeout) list"
  frames :: "animation list"
  focusCalls :: nat
  keydownListeners :: "nat list"
  nextListener :: nat
  clickListeners :: "elem list"
  loadListeners :: nat
  hrefAssignments :: "string list"
  warnings :: "warning list"
  uncaught :: "exception list"

text \<open>
  \<open>noteMetrics b s\<close> is (\<open>offsetWidth\<close>, \<open>offsetHeight\<close>) of the displayed note holding
  the text \<open>s\<close>. \<open>scrollToCalls\<close> is the \<open>top\<close> of every \<open>window.scrollTo\<close> call, in
  order (the scroll is smooth, so \<open>scrollY\<close> follows later). \<open>timeouts\<close> holds the
  pending \<open>setTimeout\<close> callbacks with their delay, \<open>frames\<close> the pending
  \<open>requestAnimationFrame\<close> callbacks. \<open>keydownListeners\<close> are the identities of the
  handlers attached to the window, \<open>clickListeners\<close> the elements carrying a one-shot
  \<open>next\<close> listener, \<open>loadListeners\<close> the number of pending once-only
  \<open>DOMContentLoaded\<close> listeners. \<open>warnings\<close> is the log of \<open>console.warn\<close>, and
  \<open>uncaught\<close> the exceptions that left the running handler.
\<close>

definition scrollTo :: "real \<Rightarrow> browser \<Rightarrow> browser" where
  "scrollTo t b = b\<lparr>scrollToCalls := scrollToCalls b @ [t]\<rparr>"

definition setTimeout :: "timeout \<Rightarrow> real \<Rightarrow> browser \<Rightarrow> browser" where
  "setTimeout cb delay b = b\<lparr>timeouts := timeouts b @ [(delay, cb)]\<rparr>"

definition requestAnimationFrame :: "animation \<Rightarrow> browser \<Rightarrow> browser" where
  "requestAnimationFrame a b = b\<lparr>frames := frames b @ [a]\<rparr>"

definition focus :: "browser \<Rightarrow> browser" where
  "focus b = b\<lparr>focusCalls := Suc (focusCalls b)\<rparr>"

definition warn :: "warning \<Rightarrow> browser \<Rightarrow> browser" where
  "warn w b = b\<lparr>warnings := warnings b @ [w]\<rparr>"

definition throw :: "exception \<Rightarrow> browser \<Rightarrow> browser" where
  "throw e b = b\<lparr>uncaught := uncaught b @ [e]\<rparr>"

subsection \<open>Pointer\<close>

record pointer_el =
  p_display :: string
  p_left :: "real option"
  p_top :: "real option"
  p_transform :: string

record note_el =
  n_textContent :: string
  n_display :: string
  n_visibility :: string
  n_opacity :: string
  n_left :: "real option"
  n_top :: "real option"
  n_transform :: string
  n_transition :: string
  n_ariaLabel :: "string option"

record Pointer =
  pointerEl :: pointer_el
  noteEl :: note_el
  currentX :: real
  currentY :: real
  animating :: bool
  options :: PointerOptions

text \<open>The constructor: defaults for the options, the note hidden, the pointer at the
  centre of the viewport.\<close>

definition new_Pointer :: "PointerOptions \<Rightarrow> browser \<Rightarrow> Pointer" where
  "new_Pointer opts b =
     \<lparr>pointerEl = \<lparr>p_display = [], p_left = Some (innerWidth b / 2),
                    p_top = Some (innerHeight b / 2), p_transform = []\<rparr>,
      noteEl = \<lparr>n_textContent = [], n_display = ''none'', n_visibility = [],
                 n_opacity = [], n_left = None, n_top = None, n_transform = [],
                 n_transition = [], n_ariaLabel = None\<rparr>,
      currentX = innerWidth b / 2,
      currentY = innerHeight b / 2,
      animating = False,
      options = \<lparr>color = Some (or_default (color opts) ''#8BD3E6''),
                  fontFamily = Some (or_default (fontFamily opts) ''inherit''),
                  fontSize = Some (or_default (fontSize opts) ''14px''),
                  animationSpeed = Some (nullish (animationSpeed opts) 400),
                  pointerSize = Some (nullish (pointerSize opts) 32),
                  pointerStyle = Some (case pointerStyle opts of None \<Rightarrow> Arrow | Some s \<Rightarrow> s)\<rparr>\<rparr>"

text \<open>The note prepared for measuring: displayed, invisible and off screen.\<close>

definition measureNote :: "string \<Rightarrow> note_el \<Rightarrow> note_el" where
  "measureNote s n =
     n\<lparr>n_textContent := s, n_display := ''block'', n_visibility := ''hidden'',
       n_opacity := ''0'', n_left := Some (- 9999), n_top := Some (- 9999)\<rparr>"

text \<open>\<open>offsetWidth\<close> and \<open>offsetHeight\<close> of the note: zero while it is not displayed.\<close>

definition offsetWidth :: "browser \<Rightarrow> note_el \<Rightarrow> real" where
  "offsetWidth b n = (if n_display n = ''none'' then 0 else fst (noteMetrics b (n_textContent n)))"

definition offsetHeight :: "browser \<Rightarrow> note_el \<Rightarrow> real" where
  "offsetHeight b n = (if n_display n = ''none'' then 0 else snd (noteMetrics b (n_textContent n)))"

text \<open>
  The animation closure's easing, and the fraction of the duration that has elapsed,
  capped at 1, both as the source computes them.
\<close>

definition ease :: "jsnum \<Rightarrow> jsnum" where
  "ease t = (if js_lt t (Fin (1 / 2)) then js_mul (js_mul (Fin 2) t) t
             else js_add (Fin (- 1)) (js_mul (js_sub (Fin 4) (js_mul (Fin 2) t)) t))"

definition elapsed :: "animation \<Rightarrow> real \<Rightarrow> jsnum" where
  "elapsed a now =
     js_min (js_div (js_sub (Fin now) (Fin (a_startTime a))) (Fin (a_duration a))) (Fin 1)"

text \<open>
  The body of the closure \<open>animate\<close> for one frame at time \<open>now\<close>: the pointer and the
  note are placed, and the frame either asks for the next one or completes the
  animation.
\<close>

definition animate :: "animation \<Rightarrow> real \<Rightarrow> Pointer \<Rightarrow> browser \<Rightarrow> Pointer \<times> browser" where
  "animate a now p b =
     (let el = elapsed a now;
          t = ease el;
          curX = js_add (Fin (a_startX a)) (js_mul (Fin (a_deltaX a)) t);
          curY = js_add (Fin (a_startY a)) (js_mul (Fin (a_deltaY a)) t);
          pe = (pointerEl p)\<lparr>p_left := px curX (p_left (pointerEl p)),
                              p_top := px curY (p_top (pointerEl p))\<rparr>;
          margin = Fin 8;
          (pe1, ne1, b1) =
            (if truthy (a_note a) then
               let offsetX = js_add (Fin (a_pointerSize a)) (Fin 12);
                   offsetY = js_add (Fin (a_pointerSize a)) (Fin 8);
                   noteLeft = js_add curX offsetX;
                   noteTop = (if a_flip a
                              then js_sub (js_sub curY (Fin (a_noteHeight a))) (Fin 12)
                              else js_add curY offsetY);
                   (noteLeft1, flipX1) =
                     (if js_gt (js_add noteLeft (Fin (a_noteWidth a)))
                               (js_sub (Fin (innerWidth b)) margin)
                      then (js_sub (js_sub (Fin (innerWidth b)) (Fin (a_noteWidth a))) (Fin 12),
                            True)
                      else (noteLeft, False));
                   (noteLeft2, flipX) =
                     (if js_gt (js_add (js_add curX offsetX) (Fin (a_noteWidth a)))
                               (js_sub (Fin (innerWidth b)) margin) \<and> a_flip a
                      then (js_sub (js_sub (Fin (innerWidth b)) (Fin (a_noteWidth a))) (Fin 12),
                            True)
                      else (noteLeft1, flipX1));
                   n1 = (noteEl p)\<lparr>n_left := px noteLeft2 (n_left (noteEl p)),
                                   n_top := px noteTop (n_top (noteEl p)),
                                   n_display := ''block'', n_transform := []\<rparr>;
                   pe' = pe\<lparr>p_transform :=
                           (if flipX \<and> a_flip a then ''scaleX(-1) scaleY(-1)''
                            else if flipX then ''scaleX(-1)''
                            else if a_flip a then ''scaleY(-1)''
                            else [])\<rparr>;
                   n2 = (if \<not> a_isFirstStep a
                         then n1\<lparr>n_opacity := ''1'', n_visibility := ''visible''\<rparr> else n1);
                   b' = (if el = Fin 1
                         then focus (if a_isFirstStep a then setTimeout NoteReveal 10 b else b)
                         else b)
               in (pe', n2, b')
             else (pe\<lparr>p_transform := []\<rparr>,
                   (noteEl p)\<lparr>n_display := ''none'', n_ariaLabel := None\<rparr>, b));
          p1 = p\<lparr>pointerEl := pe1, noteEl := ne1\<rparr>
      in if js_lt el (Fin 1) then (p1, requestAnimationFrame a b1)
         else (p1\<lparr>currentX := a_x a, currentY := a_y a, animating := False\<rparr>, b1))"

text \<open>
  The curve the easing is meant to follow, on exact numbers: \<open>2t\<^sup>2\<close> below one half and
  \<open>-1 + (4 - 2t)t\<close> from there on.
\<close>

definition ease_curve :: "real \<Rightarrow> real" where
  "ease_curve t = (if t < 1 / 2 then 2 * t\<^sup>2 else - 1 + (4 - 2 * t) * t)"

text \<open>The 10 ms callback that reveals a first-step note.\<close>

definition noteReveal :: "Pointer \<Rightarrow> Pointer" where
  "noteReveal p = p\<lparr>noteEl := (noteEl p)\<lparr>n_visibility := ''visible'', n_opacity := ''1''\<rparr>\<rparr>"

definition animateTo :: "real \<Rightarrow> real \<Rightarrow> string option \<Rightarrow> bool \<Rightarrow> bool \<Rightarrow> Pointer \<Rightarrow> browser \<Rightarrow> Pointer \<times> browser" where
  "animateTo x y note isFirstStep flip p b =
     (if animating p then (p, b)
      else
        let duration = nullish (animationSpeed (options p)) 400;
            startX = currentX p;
            startY = currentY p;
            pointerSize' = nullish (pointerSize (options p)) 32;
            n1 = (if truthy note then measureNote (the note) (noteEl p) else noteEl p);
            noteWidth = (if truthy note then offsetWidth b n1 else 0);
            noteHeight = (if truthy note then offsetHeight b n1 else 0);
            n2 = (if truthy note then n1\<lparr>n_ariaLabel := Some (the note)\<rparr> else n1);
            n3 = (if isFirstStep \<and> truthy note
                  then n2\<lparr>n_opacity := ''0'', n_transition := ''opacity 0.4s'',
                          n_visibility := ''hidden''\<rparr>
                  else if truthy note
                  then n2\<lparr>n_opacity := ''1'', n_transition := [], n_visibility := ''visible''\<rparr>
                  else n2);
            a = \<lparr>a_x = x, a_y = y, a_note = note, a_isFirstStep = isFirstStep, a_flip = flip,
                 a_duration = duration, a_startX = startX, a_startY = startY,
                 a_deltaX = x - startX, a_deltaY = y - startY,
                 a_startTime = performance_now b, a_pointerSize = pointerSize',
                 a_noteWidth = noteWidth, a_noteHeight = noteHeight\<rparr>
        in (p\<lparr>animating := True, noteEl := n3\<rparr>, requestAnimationFrame a b))"

text \<open>
  Where \<open>moveToElement\<close>'s callback sends the pointer: at the element's right edge, below
  it or (flipped) above it, brought under the upper bound and then over the lower one.
  The result is (\<open>pointerX\<close>, \<open>pointerY\<close>, \<open>flip\<close>).
\<close>

definition pointerTarget :: "rect \<Rightarrow> real \<Rightarrow> real \<Rightarrow> real \<Rightarrow> real \<Rightarrow> real \<times> real \<times> bool" where
  "pointerTarget updatedRect viewportWidth viewportHeight pointerSize' noteHeight =
     (let margin = 8;
          offsetY = pointerSize' + 8;
          flip = (rect_bottom updatedRect + offsetY + noteHeight > viewportHeight - margin);
          pointerX = rect_right updatedRect - pointerSize';
          pointerY = (if flip then rect_top updatedRect - pointerSize' - margin
                      else rect_bottom updatedRect + margin);
          pointerX1 = min pointerX (viewportWidth - pointerSize' - margin);
          pointerY1 = min pointerY (viewportHeight - pointerSize' - margin);
          pointerX2 = max margin pointerX1;
          pointerY2 = max margin pointerY1
      in (pointerX2, pointerY2, flip))"

text \<open>The callback \<open>moveToElement\<close> schedules, run 300 ms later.\<close>

definition moveToElement_timeout ::
  "elem \<Rightarrow> string option \<Rightarrow> bool \<Rightarrow> real \<Rightarrow> real \<Rightarrow> Pointer \<Rightarrow> browser \<Rightarrow> Pointer \<times> browser" where
  "moveToElement_timeout target note isFirstStep viewportWidth viewportHeight p b =
     (let updatedRect = getBoundingClientRect b target;
          pointerSize' = nullish (pointerSize (options p)) 32;
          n1 = (if truthy note then measureNote (the note) (noteEl p) else noteEl p);
          noteHeight = (if truthy note
                        then (if offsetHeight b n1 = 0 then 48 else offsetHeight b n1)
                        else 48);
          (pointerX, pointerY, flip) =
             pointerTarget updatedRect viewportWidth viewportHeight pointerSize' noteHeight
      in animateTo pointerX pointerY note isFirstStep flip (p\<lparr>noteEl := n1\<rparr>) b)"

definition moveToElement :: "elem \<Rightarrow> string option \<Rightarrow> bool \<Rightarrow> Pointer \<Rightarrow> browser \<Rightarrow> Pointer \<times> browser" where
  "moveToElement target note isFirstStep p b =
     (let rect = getBoundingClientRect b target;
          viewportWidth = innerWidth b;
          viewportHeight = innerHeight b;
          b1 = (if rect_top rect < 0
                then scrollTo (scrollY b + rect_top rect - 100) b
                else if rect_bottom rect > viewportHeight
                then scrollTo (scrollY b + rect_bottom rect - viewportHeight + 100) b
                else b)
      in (p, setTimeout (MoveTimeout target note isFirstStep viewportWidth viewportHeight) 300 b1))"

definition hide :: "Pointer \<Rightarrow> Pointer" where
  "hide p = p\<lparr>pointerEl := (pointerEl p)\<lparr>p_display := ''none''\<rparr>,
              noteEl := (noteEl p)\<lparr>n_display := ''none''\<rparr>\<rparr>"

text \<open>The method \<open>show\<close> (the name is a keyword of the proof language).\<close>

definition showPointer :: "Pointer \<Rightarrow> browser \<Rightarrow> Pointer \<times> browser" where
  "showPointer p b =
     (let p1 = p\<lparr>pointerEl := (pointerEl p)\<lparr>p_display := ''block''\<rparr>\<rparr>
      in (p1, if n_display (noteEl p1) \<noteq> ''none'' then focus b else b))"

definition setInitialPosition :: "real \<Rightarrow> real \<Rightarrow> Pointer \<Rightarrow> Pointer" where
  "setInitialPosition x y p =
     p\<lparr>currentX := x, currentY := y,
       pointerEl := (pointerEl p)\<lparr>p_left := Some x, p_top := Some y\<rparr>\<rparr>"

subsection \<open>FlowManager\<close>

record OnboardingStep =
  element :: string
  step_note :: string
  url :: "string option"

record FlowOptions =
  keyboardNavigation :: "bool option"

record FlowManager =
  steps :: "OnboardingStep list"
  pointer :: "Pointer option"
  currentStep :: nat
  running :: bool
  pointerOptions :: PointerOptions
  flowOptions :: FlowOptions
  keyHandler :: "nat option"
  prevOverflow :: "string option"

text \<open>
  \<open>currentStep\<close> starts at 0, is incremented, and is decremented only when positive: a
  natural number. \<open>keyHandler\<close> is the identity of the closure \<open>start\<close> created, which is
  what \<open>removeEventListener\<close> compares.
\<close>

definition new_FlowManager :: "PointerOptions \<Rightarrow> FlowOptions \<Rightarrow> FlowManager" where
  "new_FlowManager pointerOptions' flowOptions' =
     \<lparr>steps = [], pointer = None, currentStep = 0, running = False,
      pointerOptions = pointerOptions',
      flowOptions = \<lparr>keyboardNavigation = Some (keyboardNavigation flowOptions' \<noteq> Some False)\<rparr>,
      keyHandler = None, prevOverflow = None\<rparr>"

definition addKeydownListener :: "nat \<Rightarrow> browser \<Rightarrow> browser" where
  "addKeydownListener h b =
     (if h \<in> set (keydownListeners b) then b
      else b\<lparr>keydownListeners := keydownListeners b @ [h]\<rparr>)"

definition removeKeydownListener :: "nat \<Rightarrow> browser \<Rightarrow> browser" where
  "removeKeydownListener h b = b\<lparr>keydownListeners := removeAll h (keydownListeners b)\<rparr>"

definition stop :: "FlowManager \<Rightarrow> browser \<Rightarrow> FlowManager \<times> browser" where
  "stop fm b =
     (let fm1 = fm\<lparr>running := False\<rparr>;
          fm2 = (case pointer fm1 of
                   Some p \<Rightarrow> fm1\<lparr>pointer := Some (hide p)\<rparr>
                 | None \<Rightarrow> fm1);
          (fm3, b1) = (case prevOverflow fm2 of
                         Some v \<Rightarrow> (fm2\<lparr>prevOverflow := None\<rparr>, b\<lparr>bodyOverflow := v\<rparr>)
                       | None \<Rightarrow> (fm2, b))
      in (case keyHandler fm3 of
            Some h \<Rightarrow> (fm3\<lparr>keyHandler := None\<rparr>, removeKeydownListener h b1)
          | None \<Rightarrow> (fm3, b1)))"

text \<open>
  Whether a step asks for a navigation first: it has a non-empty \<open>url\<close> that differs from
  the current path.
\<close>

definition needsNavigation :: "OnboardingStep \<Rightarrow> browser \<Rightarrow> bool" where
  "needsNavigation step b = (truthy (url step) \<and> pathname b \<noteq> the (url step))"

text \<open>
  \<open>runStep\<close> and \<open>advanceStep\<close> call each other. Every call in the class that may throw
  (\<open>querySelector\<close> on an invalid selector, a method call on a null pointer) and every
  call of \<open>runStep\<close> and \<open>advanceStep\<close> is the last statement of its caller, so an
  exception only ends the handler: it is logged in \<open>uncaught\<close>.
\<close>

function runStep :: "FlowManager \<Rightarrow> browser \<Rightarrow> FlowManager \<times> browser"
  and advanceStep :: "FlowManager \<Rightarrow> browser \<Rightarrow> FlowManager \<times> browser" where
  "runStep fm b =
     (if \<not> running fm \<or> currentStep fm \<ge> length (steps fm) then stop fm b
      else
        let step = steps fm ! currentStep fm in
        if needsNavigation step b
        then (fm, b\<lparr>hrefAssignments := hrefAssignments b @ [the (url step)],
                    loadListeners := Suc (loadListeners b)\<rparr>)
        else
          (case querySelector b (element step) of
             Invalid \<Rightarrow> (fm, throw SyntaxError b)
           | Match el \<Rightarrow>
               (case pointer fm of
                  None \<Rightarrow> (fm, throw TypeError b)
                | Some p \<Rightarrow>
                    let (p1, b1) = showPointer p b;
                        (p2, b2) = moveToElement el (Some (step_note step)) (currentStep fm = 0) p1 b1
                    in (fm\<lparr>pointer := Some p2\<rparr>, b2\<lparr>clickListeners := clickListeners b2 @ [el]\<rparr>))
           | NoMatch \<Rightarrow>
               advanceStep fm (warn (ElementNotFound (element step) (currentStep fm + 1)) b)))"
| "advanceStep fm b = runStep (fm\<lparr>currentStep := currentStep fm + 1\<rparr>) b"
  by pat_completeness auto
termination
  by (relation "measures
        [\<lambda>c. case c of Inl (fm, b) \<Rightarrow> 2 * (length (steps fm) - currentStep fm)
                     | Inr (fm, b) \<Rightarrow> 2 * (length (steps fm) - currentStep fm) - 1,
         \<lambda>c. case c of Inl _ \<Rightarrow> 0 | Inr _ \<Rightarrow> 1]") auto

definition goBackStep :: "FlowManager \<Rightarrow> browser \<Rightarrow> FlowManager \<times> browser" where
  "goBackStep fm b =
     (if currentStep fm > 0 then runStep (fm\<lparr>currentStep := currentStep fm - 1\<rparr>) b
      else (fm, b))"

text \<open>The closure \<open>start\<close> installs on \<open>keydown\<close>, applied to the event's \<open>key\<close>.\<close>

definition keyHandler_body :: "string \<Rightarrow> FlowManager \<Rightarrow> browser \<Rightarrow> FlowManager \<times> browser" where
  "keyHandler_body key fm b =
     (if \<not> running fm then (fm, b)
      else if key = ''Enter'' \<or> key = ''ArrowRight'' then advanceStep fm b
      else if key = ''ArrowLeft'' then goBackStep fm b
      else if key = ''Escape'' then stop fm b
      else (fm, b))"

text \<open>The one-shot click listener \<open>next\<close> of \<open>runStep\<close>, on the element \<open>el\<close>.\<close>

definition next_click :: "elem \<Rightarrow> FlowManager \<Rightarrow> browser \<Rightarrow> FlowManager \<times> browser" where
  "next_click el fm b = advanceStep fm (b\<lparr>clickListeners := remove1 el (clickListeners b)\<rparr>)"

text \<open>
  The once-only \<open>DOMContentLoaded\<close> listeners of \<open>runStep\<close>: each schedules
  \<open>runStep\<close> 300 ms later.
\<close>

definition domContentLoaded :: "browser \<Rightarrow> browser" where
  "domContentLoaded b =
     b\<lparr>loadListeners := 0,
       timeouts := timeouts b @ replicate (loadListeners b) (300, RunStepTimeout)\<rparr>"

text \<open>The argument of \<open>start\<close> at run time: \<open>Array.isArray\<close> tells the two apart.\<close>

datatype steps_arg = NotAnArray | StepsArray "OnboardingStep list"

definition start :: "steps_arg \<Rightarrow> FlowManager \<Rightarrow> browser \<Rightarrow> FlowManager \<times> browser" where
  "start arg fm b =
     (case arg of
        NotAnArray \<Rightarrow> (fm, warn NoStepsProvided b)
      | StepsArray ss \<Rightarrow>
          if length ss = 0 then (fm, warn NoStepsProvided b)
          else
            let fm1 = fm\<lparr>steps := ss, currentStep := 0, running := True\<rparr>;
                fm2 = (if pointer fm1 = None
                       then fm1\<lparr>pointer := Some (new_Pointer (pointerOptions fm1) b)\<rparr>
                       else fm1);
                fm3 = fm2\<lparr>prevOverflow := Some (bodyOverflow b)\<rparr>;
                b1 = b\<lparr>bodyOverflow := ''hidden''\<rparr>;
                (fm4, b2) =
                  (if keyboardNavigation (flowOptions fm3) = Some True
                   then (fm3\<lparr>keyHandler := Some (nextListener b1)\<rparr>,
                         addKeydownListener (nextListener b1)
                           (b1\<lparr>nextListener := Suc (nextListener b1)\<rparr>))
                   else (fm3, b1))
            in runStep fm4 b2)"

text \<open>\<open>FlowManager.setInitialPosition\<close>.\<close>

definition fm_setInitialPosition :: "real \<Rightarrow> real \<Rightarrow> FlowManager \<Rightarrow> browser \<Rightarrow> FlowManager" where
  "fm_setInitialPosition x y fm b =
     (let fm1 = (if pointer fm = None
                 then fm\<lparr>pointer := Some (new_Pointer (pointerOptions fm) b)\<rparr>
                 else fm)
      in fm1\<lparr>pointer := Some (setInitialPosition x y (the (pointer fm1)))\<rparr>)"

subsection \<open>The singleton entry point\<close>

record MouseEvent =
  clientX :: real
  clientY :: real

text \<open>
  \<open>startOnboarding\<close> on the module variable \<open>flowManager\<close> (\<open>None\<close> for \<open>null\<close>); the
  result holds its new value.
\<close>

definition startOnboarding ::
  "steps_arg \<Rightarrow> PointerOptions \<Rightarrow> MouseEvent option \<Rightarrow> FlowOptions
     \<Rightarrow> FlowManager option \<Rightarrow> browser \<Rightarrow> FlowManager option \<times> browser" where
  "startOnboarding steps' pointerOptions' event flowOptions' flowManager b =
     (let fm = (case flowManager of
                  None \<Rightarrow> new_FlowManager pointerOptions' flowOptions'
                | Some m \<Rightarrow> m);
          fm1 = (case event of
                   Some e \<Rightarrow> fm_setInitialPosition (clientX e - 16) (clientY e - 16) fm b
                 | None \<Rightarrow> fm);
          (fm2, b1) = start steps' fm1 b
      in (Some fm2, b1))"

subsection \<open>Example states\<close>

text \<open>
  A 1024 by 768 viewport whose only element, \<open>#a\<close>, lies above the visible area; a
  pointer configured with a 36 pixel icon, as the demo page does; the pointer and the
  browser once the callback of a first \<open>moveToElement\<close> with the note \<open>A\<close> has
  started its animation, and that animation.
\<close>

definition ex_rect :: rect where
  "ex_rect = \<lparr>rect_top = - 50, rect_bottom = - 10, rect_left = 100, rect_right = 200\<rparr>"

definition ex_browser :: browser where
  "ex_browser =
     \<lparr>innerWidth = 1024, innerHeight = 768, scrollY = 0, performance_now = 0,
      getBoundingClientRect = (\<lambda>_. ex_rect),
      noteMetrics = (\<lambda>_. (120, 48)),
      querySelector = (\<lambda>s. if s = ''#a'' then Match 0 else NoMatch),
      pathname = ''/'', bodyOverflow = ''auto'', scrollToCalls = [], timeouts = [],
      frames = [], focusCalls = 0, keydownListeners = [], nextListener = 0,
      clickListeners = [], loadListeners = 0, hrefAssignments = [], warnings = [],
      uncaught = []\<rparr>"

definition ex_options :: PointerOptions where
  "ex_options = \<lparr>color = None, fontFamily = None, fontSize = None, animationSpeed = None,
                  pointerSize = Some 36, pointerStyle = None\<rparr>"

definition ex_busy :: Pointer where
  "ex_busy = fst (moveToElement_timeout 0 (Some ''A'') False 1024 768
                    (new_Pointer ex_options ex_browser) ex_browser)"


definition ex_animation :: animation where
  "ex_animation = \<lparr>a_x = 164, a_y = 8, a_note = Some ''A'', a_isFirstStep = False,
                    a_flip = False, a_duration = 400, a_startX = 512, a_startY = 384,
                    a_deltaX = - 348, a_deltaY = - 376, a_startTime = 0, a_pointerSize = 36,
                    a_noteWidth = 120, a_noteHeight = 48\<rparr>"

text \<open>A flow in progress on the steps \<open>#missing\<close>, \<open>#a\<close>, at its first step.\<close>

definition ex_flow :: FlowManager where
  "ex_flow =
     \<lparr>steps = [\<lparr>element = ''#missing'', step_note = ''X'', url = None\<rparr>,
               \<lparr>element = ''#a'', step_note = ''A'', url = None\<rparr>],
      pointer = Some (new_Pointer ex_options ex_browser), currentStep = 0, running = True,
      pointerOptions = ex_options, flowOptions = \<lparr>keyboardNavigation = Some True\<rparr>,
      keyHandler = Some 0, prevOverflow = Some ''auto''\<rparr>"

text \<open>The same flow on a single step that is missing here and names another page.\<close>

definition ex_nav_flow :: FlowManager where
  "ex_nav_flow =
     ex_flow\<lparr>steps := [\<lparr>element = ''#missing'', step_note = ''X'', url = Some ''/tour''\<rparr>]\<rparr>"

text \<open>The animation of \<open>ex_animation\<close> with a zero duration, and the double written
  \<open>0.1\<close>.\<close>

definition ex_instant :: animation where
  "ex_instant = ex_animation\<lparr>a_duration := 0\<rparr>"

definition ex_tenth :: real where
  "ex_tenth = 3602879701896397 / 36028797018963968"

definition ex_flow_browser :: browser where
  "ex_flow_browser = ex_browser\<lparr>bodyOverflow := ''hidden'', keydownListeners := [0],
                                nextListener := 1\<rparr>"

subsection \<open>Auxiliary facts\<close>

declare runStep.simps [simp del] advanceStep.simps [simp del] ulp.simps [simp del]

paragraph \<open>Rounding\<close>

lemma min_normal_pos: "0 < min_normal" and min_normal_le: "min_normal \<le> 1"
  by (simp_all add: min_normal_def)

lemma min_subnormal_pos: "0 < min_subnormal"
  by (simp add: min_subnormal_def)

lemma min_subnormal_small: "min_subnormal \<le> 1 / 2 ^ 53"
  by (simp add: min_subnormal_def)

lemma overflow_threshold_big: "16 < overflow_threshold"
  by (simp add: overflow_threshold_def)

lemma rne_err: "\<bar>of_int (rne y) - y\<bar> \<le> 1 / 2"
  unfolding rne_def Let_def by (auto simp: abs_le_iff)

lemma rne_of_int: "rne (of_int z) = z"
  by (simp add: rne_def)

lemma rne_ge_one: "1 \<le> y \<Longrightarrow> 1 \<le> rne y"
proof -
  assume "1 \<le> y"
  with rne_err [of y] have "(0::real) < of_int (rne y)"
    by linarith
  then show ?thesis
    by simp
qed

lemma ulp_pos: "0 < ulp x"
proof (induction x rule: ulp.induct)
  case (1 x)
  then show ?case
    by (subst ulp.simps) (simp add: min_subnormal_pos)
qed

lemma ulp_subnormal: "\<bar>x\<bar> < min_normal \<Longrightarrow> ulp x = min_subnormal"
  by (subst ulp.simps) simp

lemma ulp_normal: "min_normal \<le> \<bar>x\<bar> \<Longrightarrow> ulp x \<le> \<bar>x\<bar> / 2 ^ 52"
proof (induction x rule: ulp.induct)
  case (1 x)
  from "1.prems" have ns: "\<not> \<bar>x\<bar> < min_normal"
    by simp
  show ?case
  proof (cases "2 ^ 53 \<le> \<bar>x\<bar>")
    case True
    then have "min_normal \<le> \<bar>x / 2\<bar>"
      using min_normal_le by simp
    from "1.IH"(1) [OF ns True this] have "ulp (x / 2) \<le> \<bar>x / 2\<bar> / 2 ^ 52" .
    then have "2 * ulp (x / 2) \<le> \<bar>x\<bar> / 2 ^ 52"
      by simp
    moreover have "ulp x = 2 * ulp (x / 2)"
      using ns True by (subst ulp.simps) simp
    ultimately show ?thesis
      by simp
  next
    case nb: False
    show ?thesis
    proof (cases "\<bar>x\<bar> < 2 ^ 52")
      case True
      have "min_normal \<le> \<bar>2 * x\<bar>"
        using "1.prems" by simp
      from "1.IH"(2) [OF ns nb True this] have "ulp (2 * x) \<le> \<bar>2 * x\<bar> / 2 ^ 52" .
      then have "ulp (2 * x) / 2 \<le> \<bar>x\<bar> / 2 ^ 52"
        by simp
      moreover have "ulp x = ulp (2 * x) / 2"
        using ns nb True by (subst ulp.simps) simp
      ultimately show ?thesis
        by simp
    next
      case False
      then have "ulp x = 1"
        using ns nb by (subst ulp.simps) simp
      with False show ?thesis
        by simp
    qed
  qed
qed

text \<open>One rounding of a value of magnitude at most 4 is finite and off by at most
  \<open>5 / 2^53\<close>.\<close>

lemma fl_abs_err:
  assumes "\<bar>x\<bar> \<le> 4"
  shows "\<exists>r. fl x = Fin r \<and> \<bar>r - x\<bar> \<le> 5 / 2 ^ 53"
proof -
  define r where "r = ulp x * of_int (rne (x / ulp x))"
  have up: "0 < ulp x"
    by (rule ulp_pos)
  have "r - x = ulp x * (of_int (rne (x / ulp x)) - x / ulp x)"
    using up by (simp add: r_def algebra_simps)
  then have "\<bar>r - x\<bar> = ulp x * \<bar>of_int (rne (x / ulp x)) - x / ulp x\<bar>"
    using up by (simp add: abs_mult)
  also have "\<dots> \<le> ulp x * (1 / 2)"
    using up rne_err [of "x / ulp x"] by (intro mult_left_mono) simp_all
  finally have half: "\<bar>r - x\<bar> \<le> ulp x / 2"
    by simp
  have ub: "ulp x \<le> 8 / 2 ^ 53"
  proof (cases "\<bar>x\<bar> < min_normal")
    case True
    then show ?thesis
      using ulp_subnormal [OF True] min_subnormal_small by simp
  next
    case False
    then have "ulp x \<le> \<bar>x\<bar> / 2 ^ 52"
      by (intro ulp_normal) simp
    also have "\<dots> \<le> 4 / 2 ^ 52"
      using assms by (simp add: divide_right_mono)
    finally show ?thesis
      by simp
  qed
  from half ub have err: "\<bar>r - x\<bar> \<le> 5 / 2 ^ 53"
    by simp
  moreover have "5 / 2 ^ 53 \<le> (1::real)"
    by simp
  ultimately have "\<bar>r\<bar> \<le> 5"
    using assms by linarith
  then have "\<not> overflow_threshold \<le> r" "\<not> r \<le> - overflow_threshold"
    using overflow_threshold_big by (simp_all add: abs_le_iff)
  then have "fl x = Fin r"
    by (simp add: fl_def r_def [symmetric])
  with err show ?thesis
    by blast
qed

text \<open>A value of at least the smallest subnormal rounds to a positive double or
  overflows.\<close>

lemma fl_positive:
  assumes "min_subnormal \<le> x"
  shows "fl x = PosInf \<or> (\<exists>r. fl x = Fin r \<and> 0 < r)"
proof -
  define r where "r = ulp x * of_int (rne (x / ulp x))"
  have up: "0 < ulp x"
    by (rule ulp_pos)
  have xpos: "0 < x"
    using assms min_subnormal_pos by linarith
  have "ulp x \<le> x"
  proof (cases "\<bar>x\<bar> < min_normal")
    case True
    then show ?thesis
      using ulp_subnormal [OF True] assms by simp
  next
    case False
    then have "ulp x \<le> \<bar>x\<bar> / 2 ^ 52"
      by (intro ulp_normal) simp
    also have "\<dots> \<le> x"
      using xpos by (simp add: divide_le_eq)
    finally show ?thesis .
  qed
  then have "1 \<le> x / ulp x"
    using up by (simp add: le_divide_eq)
  then have "1 \<le> rne (x / ulp x)"
    by (rule rne_ge_one)
  then have "(1::real) \<le> of_int (rne (x / ulp x))"
    by simp
  then have "ulp x * 1 \<le> r"
    unfolding r_def using up by (intro mult_left_mono) simp_all
  with up have rpos: "0 < r"
    by simp
  then have "\<not> r \<le> - overflow_threshold"
    using overflow_threshold_big by simp
  then have "fl x = (if overflow_threshold \<le> r then PosInf else Fin r)"
    by (simp add: fl_def r_def [symmetric])
  with rpos show ?thesis
    by auto
qed

text \<open>Evaluation: the spacing and the rounding of a value whose multiple by \<open>2^k\<close> lies
  in the range of the 53-bit integers.\<close>

lemma ulp_eval:
  "2 ^ 52 \<le> \<bar>x\<bar> * 2 ^ k \<Longrightarrow> \<bar>x\<bar> * 2 ^ k < 2 ^ 53 \<Longrightarrow> k \<le> 1074 \<Longrightarrow> ulp x = 1 / 2 ^ k"
proof (induction k arbitrary: x)
  case 0
  then have "\<not> \<bar>x\<bar> < min_normal"
    using min_normal_le by simp
  with 0 show ?case
    by (subst ulp.simps) simp
next
  case (Suc k)
  have pk: "(2::real) ^ Suc k \<le> 2 ^ 1074"
    using Suc.prems(3) by (intro power_increasing) simp_all
  have "min_normal * 2 ^ Suc k \<le> min_normal * 2 ^ 1074"
    using pk min_normal_pos by (intro mult_left_mono) simp_all
  also have "\<dots> = 2 ^ 52"
    by (simp add: min_normal_def)
  also have "\<dots> \<le> \<bar>x\<bar> * 2 ^ Suc k"
    by (rule Suc.prems(1))
  finally have "min_normal \<le> \<bar>x\<bar>"
    by (simp del: power_Suc)
  then have ns: "\<not> \<bar>x\<bar> < min_normal"
    by simp
  have "\<bar>x\<bar> * 2 \<le> \<bar>x\<bar> * 2 ^ Suc k"
    by (intro mult_left_mono) simp_all
  with Suc.prems(2) have lt: "\<bar>x\<bar> < 2 ^ 52"
    by simp
  have "ulp (2 * x) = 1 / 2 ^ k"
    using Suc.prems by (intro Suc.IH) (simp_all add: abs_mult mult.assoc)
  moreover have "ulp x = ulp (2 * x) / 2"
    using ns lt by (subst ulp.simps) simp
  ultimately show ?case
    by simp
qed

lemma fl_eval:
  assumes "2 ^ 52 \<le> \<bar>x\<bar> * 2 ^ k" and "\<bar>x\<bar> * 2 ^ k < 2 ^ 53" and "k \<le> 1074"
  shows "fl x = Fin (of_int (rne (x * 2 ^ k)) / 2 ^ k)"
proof -
  define r where "r = of_int (rne (x * 2 ^ k)) / (2::real) ^ k"
  have u: "ulp x = 1 / 2 ^ k"
    using assms by (rule ulp_eval)
  have "\<bar>of_int (rne (x * 2 ^ k)) - x * 2 ^ k\<bar> \<le> 1 / 2"
    by (rule rne_err)
  then have "\<bar>of_int (rne (x * 2 ^ k))\<bar> \<le> \<bar>x * 2 ^ k\<bar> + 1"
    by linarith
  also have "\<dots> \<le> 2 ^ 53 + 1"
    using assms(2) by (simp add: abs_mult)
  finally have "\<bar>r\<bar> \<le> (2 ^ 53 + 1) / 2 ^ k"
    by (simp add: r_def divide_right_mono)
  also have "\<dots> \<le> 2 ^ 53 + 1"
    by (simp add: divide_le_eq)
  also have "\<dots> < overflow_threshold"
    by (simp add: overflow_threshold_def)
  finally have "\<not> overflow_threshold \<le> r" "\<not> r \<le> - overflow_threshold"
    by (simp_all add: abs_less_iff)
  then show ?thesis
    by (simp add: fl_def u r_def)
qed

lemma fl_zero: "fl 0 = Fin 0"
proof -
  have "ulp 0 = min_subnormal"
    using min_normal_pos by (intro ulp_subnormal) simp
  then show ?thesis
    using overflow_threshold_big by (simp add: fl_def rne_def)
qed

text \<open>A value that is a 53-bit integer after scaling is a double: rounding keeps it.\<close>

lemma fl_exact:
  assumes "x * 2 ^ k = of_int m" and "2 ^ 52 \<le> \<bar>m\<bar>" and "\<bar>m\<bar> < 2 ^ 53" and "k \<le> 1074"
  shows "fl x = Fin x"
proof -
  have "\<bar>x\<bar> * 2 ^ k = \<bar>x * 2 ^ k\<bar>"
    by (simp add: abs_mult)
  also have "\<dots> = of_int \<bar>m\<bar>"
    by (simp only: assms(1) of_int_abs)
  finally have e: "\<bar>x\<bar> * 2 ^ k = of_int \<bar>m\<bar>" .
  have "(2::real) ^ 52 = of_int (2 ^ 52)" "(2::real) ^ 53 = of_int (2 ^ 53)"
    by simp_all
  then have b: "2 ^ 52 \<le> \<bar>x\<bar> * 2 ^ k" "\<bar>x\<bar> * 2 ^ k < 2 ^ 53"
    using assms(2,3) unfolding e by (simp_all only: of_int_le_iff of_int_less_iff)
  have "fl x = Fin (of_int (rne (x * 2 ^ k)) / 2 ^ k)"
    using b assms(4) by (rule fl_eval)
  also have "of_int (rne (x * 2 ^ k)) / 2 ^ k = x"
    using assms(1) by (simp add: rne_of_int) (simp add: assms(1) [symmetric])
  finally show ?thesis .
qed

lemma fl_one: "fl 1 = Fin 1"
  by (rule fl_exact [where k = 52 and m = "2 ^ 52"]) simp_all

lemma fl_two: "fl 2 = Fin 2"
  by (rule fl_exact [where k = 51 and m = "2 ^ 52"]) simp_all

lemma fl_half: "fl (1 / 2) = Fin (1 / 2)"
  by (rule fl_exact [where k = 53 and m = "2 ^ 52"]) simp_all

lemma fl_400: "fl 400 = Fin 400"
  by (rule fl_exact [where k = 44 and m = "400 * 2 ^ 44"]) simp_all

lemma fl_164: "fl 164 = Fin 164"
  by (rule fl_exact [where k = 45 and m = "164 * 2 ^ 45"]) simp_all

lemma fl_8: "fl 8 = Fin 8"
  by (rule fl_exact [where k = 49 and m = "2 ^ 52"]) simp_all

lemma fl_minus_348: "fl (- 348) = Fin (- 348)"
  by (rule fl_exact [where k = 44 and m = "- (348 * 2 ^ 44)"]) simp_all

lemma fl_minus_376: "fl (- 376) = Fin (- 376)"
  by (rule fl_exact [where k = 44 and m = "- (376 * 2 ^ 44)"]) simp_all

paragraph \<open>The easing\<close>

lemma scaled_error: "0 \<le> t \<Longrightarrow> t \<le> 1 \<Longrightarrow> \<bar>e\<bar> \<le> d \<Longrightarrow> \<bar>t * e\<bar> \<le> (d::real)"
proof -
  assume t: "0 \<le> t" "t \<le> 1" and e: "\<bar>e\<bar> \<le> d"
  have "\<bar>t * e\<bar> = t * \<bar>e\<bar>"
    using t by (simp add: abs_mult)
  also have "\<dots> \<le> 1 * \<bar>e\<bar>"
    using t by (intro mult_right_mono) simp_all
  finally show ?thesis
    using e by simp
qed

lemma ease_curve_symmetric: "ease_curve t + ease_curve (1 - t) = 1"
  by (simp add: ease_curve_def power2_eq_square algebra_simps)

text \<open>On [0, 1] the computed easing is finite and within \<open>2^-48\<close> of the curve.\<close>

lemma ease_near_curve:
  assumes "0 \<le> t" and "t \<le> 1"
  shows "\<exists>r. ease (Fin t) = Fin r \<and> \<bar>r - ease_curve t\<bar> \<le> 1 / 2 ^ 48"
proof -
  define eps :: real where "eps = 5 / 2 ^ 53"
  have eps: "0 \<le> eps" "eps \<le> 1 / 4" "4 * eps \<le> 1 / 2 ^ 48"
    by (simp_all add: eps_def)
  obtain a where a: "fl (2 * t) = Fin a" "\<bar>a - 2 * t\<bar> \<le> eps"
    using fl_abs_err [of "2 * t"] assms unfolding eps_def by auto
  show ?thesis
  proof (cases "t < 1 / 2")
    case True
    have "\<bar>a\<bar> \<le> 2"
      using a(2) eps True assms by linarith
    with assms have "\<bar>t * a\<bar> \<le> 2"
      by (rule scaled_error)
    then have "\<bar>a * t\<bar> \<le> 4"
      by (simp add: mult.commute)
    then obtain r where r: "fl (a * t) = Fin r" "\<bar>r - a * t\<bar> \<le> eps"
      using fl_abs_err [of "a * t"] unfolding eps_def by auto
    have e: "ease (Fin t) = Fin r"
      using True a r by (simp add: ease_def)
    have "\<bar>t * (a - 2 * t)\<bar> \<le> eps"
      using assms a(2) by (rule scaled_error)
    moreover have "r - ease_curve t = (r - a * t) + t * (a - 2 * t)"
      using True by (simp add: ease_curve_def power2_eq_square algebra_simps)
    ultimately have "\<bar>r - ease_curve t\<bar> \<le> 2 * eps"
      using r(2) by linarith
    with eps e show ?thesis
      by (intro exI [of _ r]) simp
  next
    case False
    have a_rng: "0 \<le> a" "a \<le> 3"
      using a(2) eps False assms by linarith+
    then have "\<bar>4 + - a\<bar> \<le> 4"
      by simp
    then obtain c where c: "fl (4 + - a) = Fin c" "\<bar>c - (4 + - a)\<bar> \<le> eps"
      using fl_abs_err [of "4 + - a"] unfolding eps_def by auto
    have c_rng: "0 \<le> c" "c \<le> 4"
      using c(2) a(2) eps False assms by linarith+
    then have "\<bar>t * c\<bar> \<le> 4"
      using assms by (intro scaled_error) simp_all
    then have "\<bar>c * t\<bar> \<le> 4"
      by (simp add: mult.commute)
    then obtain d where d: "fl (c * t) = Fin d" "\<bar>d - c * t\<bar> \<le> eps"
      using fl_abs_err [of "c * t"] unfolding eps_def by auto
    have "0 \<le> c * t" "c * t \<le> 4"
      using c_rng assms \<open>\<bar>c * t\<bar> \<le> 4\<close> by simp_all
    then have "\<bar>- 1 + d\<bar> \<le> 4"
      using d(2) eps by linarith
    then obtain r where r: "fl (- 1 + d) = Fin r" "\<bar>r - (- 1 + d)\<bar> \<le> eps"
      using fl_abs_err [of "- 1 + d"] unfolding eps_def by auto
    have e: "ease (Fin t) = Fin r"
      using False a c d r by (simp add: ease_def js_sub_def)
    have e1: "\<bar>t * (c - (4 + - a))\<bar> \<le> eps"
      using assms c(2) by (rule scaled_error)
    have "\<bar>2 * t - a\<bar> \<le> eps"
      using a(2) by linarith
    with assms have e2: "\<bar>t * (2 * t - a)\<bar> \<le> eps"
      by (rule scaled_error)
    have "r - ease_curve t = (r - (- 1 + d)) + (d - c * t) + t * (c - (4 + - a)) + t * (2 * t - a)"
      using False by (simp add: ease_curve_def algebra_simps)
    then have "\<bar>r - ease_curve t\<bar> \<le> 4 * eps"
      using r(2) d(2) e1 e2 by linarith
    with eps e show ?thesis
      by (intro exI [of _ r]) simp
  qed
qed

lemma ease_ends: "ease (Fin 0) = Fin 0" "ease (Fin 1) = Fin 1"
  by (simp_all add: ease_def js_sub_def fl_zero fl_one fl_two)

text \<open>Once the clock has moved on, a zero duration gives the elapsed fraction 1: the
  quotient is an infinity, which \<open>Math.min\<close> caps.\<close>

lemma elapsed_zero_duration:
  assumes "a_duration a = 0" and "a_startTime a + min_subnormal \<le> now"
  shows "elapsed a now = Fin 1"
proof -
  have "min_subnormal \<le> now + - a_startTime a"
    using assms(2) by simp
  from fl_positive [OF this]
  have "js_div (fl (now + - a_startTime a)) (Fin 0) = PosInf"
    by auto
  then show ?thesis
    using assms(1) by (simp add: elapsed_def js_sub_def js_min_def)
qed


lemma hide_hide: "hide (hide p) = hide p"
  by (simp add: hide_def)

lemma stop_not_running: "\<not> running (fst (stop fm b))"
  by (simp add: stop_def Let_def split_beta split: option.splits)

lemma keyHandler_body_idle: "\<not> running fm \<Longrightarrow> keyHandler_body key fm b = (fm, b)"
  by (simp add: keyHandler_body_def)

lemma ex_busy_eval:
  "ex_busy =
     \<lparr>pointerEl = \<lparr>p_display = [], p_left = Some 512, p_top = Some 384, p_transform = []\<rparr>,
      noteEl = \<lparr>n_textContent = ''A'', n_display = ''block'', n_visibility = ''visible'',
                 n_opacity = ''1'', n_left = Some (- 9999), n_top = Some (- 9999),
                 n_transform = [], n_transition = [], n_ariaLabel = Some ''A''\<rparr>,
      currentX = 512, currentY = 384, animating = True,
      options = \<lparr>color = Some ''#8BD3E6'', fontFamily = Some ''inherit'',
                  fontSize = Some ''14px'', animationSpeed = Some 400, pointerSize = Some 36,
                  pointerStyle = Some Arrow\<rparr>\<rparr>"
  by (simp add: ex_busy_def moveToElement_timeout_def animateTo_def Let_def split_beta
        new_Pointer_def ex_options_def ex_browser_def ex_rect_def measureNote_def truthy_def
        pointerTarget_def requestAnimationFrame_def nullish_def offsetHeight_def
        offsetWidth_def or_default_def)


text \<open>
  Neither \<open>runStep\<close> nor \<open>advanceStep\<close> moves the pointer's current position: they
  only show or hide it and schedule the callback of \<open>moveToElement\<close>.
\<close>

lemma runStep_keeps_position:
  shows "runStep fm b = (fm', b') \<Longrightarrow>
           map_option currentX (pointer fm') = map_option currentX (pointer fm)
         \<and> map_option currentY (pointer fm') = map_option currentY (pointer fm)"
    and "advanceStep fm2 b2 = (fm2', b2') \<Longrightarrow>
           map_option currentX (pointer fm2') = map_option currentX (pointer fm2)
         \<and> map_option currentY (pointer fm2') = map_option currentY (pointer fm2)"
proof (induction fm b and fm2 b2 arbitrary: fm' b' and fm2' b2' rule: runStep_advanceStep.induct)
  case (1 fm b)
  from 1(2) show ?case
    apply (subst (asm) runStep.simps)
    using 1(1)
    by (auto simp: Let_def stop_def hide_def showPointer_def moveToElement_def split_beta
             split: option.splits query_result.splits if_splits)
next
  case (2 fm b)
  from 2(2) show ?case
    by (subst (asm) advanceStep.simps) (use 2(1) in fastforce)
qed

text \<open>
  What \<open>runStep\<close> and \<open>advanceStep\<close> can do in all: the step list stays, the index does
  not go back, no animation frame is requested, warnings are only appended, and at most
  one callback of \<open>moveToElement\<close> and one click listener are added, both for the
  element of the step at which the index comes to rest.
\<close>

lemma runStep_effects:
  shows "runStep fm b = (fm', b') \<Longrightarrow>
           steps fm' = steps fm \<and> currentStep fm \<le> currentStep fm'
         \<and> frames b' = frames b
         \<and> (\<exists>ws. warnings b' = warnings b @ ws)
         \<and> ((timeouts b' = timeouts b \<and> clickListeners b' = clickListeners b)
            \<or> (\<exists>el. currentStep fm' < length (steps fm)
                  \<and> querySelector b (element (steps fm ! currentStep fm')) = Match el
                  \<and> timeouts b' = timeouts b
                       @ [(300, MoveTimeout el (Some (step_note (steps fm ! currentStep fm')))
                                  (currentStep fm' = 0) (innerWidth b) (innerHeight b))]
                  \<and> clickListeners b' = clickListeners b @ [el]))"
    and "advanceStep fm2 b2 = (fm2', b2') \<Longrightarrow>
           steps fm2' = steps fm2 \<and> currentStep fm2 + 1 \<le> currentStep fm2'
         \<and> frames b2' = frames b2
         \<and> (\<exists>ws. warnings b2' = warnings b2 @ ws)
         \<and> ((timeouts b2' = timeouts b2 \<and> clickListeners b2' = clickListeners b2)
            \<or> (\<exists>el. currentStep fm2' < length (steps fm2)
                  \<and> querySelector b2 (element (steps fm2 ! currentStep fm2')) = Match el
                  \<and> timeouts b2' = timeouts b2
                       @ [(300, MoveTimeout el (Some (step_note (steps fm2 ! currentStep fm2')))
                                  (currentStep fm2' = 0) (innerWidth b2) (innerHeight b2))]
                  \<and> clickListeners b2' = clickListeners b2 @ [el]))"
proof (induction fm b and fm2 b2 arbitrary: fm' b' and fm2' b2' rule: runStep_advanceStep.induct)
  case (1 fm b)
  show ?case
  proof (cases "\<not> running fm \<or> length (steps fm) \<le> currentStep fm")
    case True
    with 1(2) have "stop fm b = (fm', b')"
      by (subst (asm) runStep.simps) simp
    then show ?thesis
      by (auto simp: stop_def Let_def removeKeydownListener_def split: option.splits)
  next
    case active: False
    let ?step = "steps fm ! currentStep fm"
    show ?thesis
    proof (cases "needsNavigation ?step b")
      case True
      with active 1(2) show ?thesis
        by (subst (asm) runStep.simps) (auto simp: Let_def)
    next
      case nonav: False
      show ?thesis
      proof (cases "querySelector b (element ?step)")
        case Invalid
        with active nonav 1(2) show ?thesis
          by (subst (asm) runStep.simps) (auto simp: Let_def throw_def)
      next
        case NoMatch
        with active nonav 1(2)
        have adv: "advanceStep fm (warn (ElementNotFound (element ?step) (currentStep fm + 1)) b)
                     = (fm', b')"
          by (subst (asm) runStep.simps) (simp add: Let_def)
        from 1(1) [OF active refl nonav NoMatch adv] show ?thesis
          by (auto simp: warn_def)
      next
        case (Match el)
        with active nonav 1(2) show ?thesis
          by (subst (asm) runStep.simps)
             (auto simp: Let_def throw_def showPointer_def moveToElement_def setTimeout_def
                scrollTo_def focus_def split: option.splits if_splits)
      qed
    qed
  qed
next
  case (2 fm b)
  from 2(2) have "runStep (fm\<lparr>currentStep := currentStep fm + 1\<rparr>) b = (fm2', b2')"
    by (subst (asm) advanceStep.simps)
  from 2(1) [OF this] show ?case
    by auto
qed

text \<open>
  Whatever the pointer options, \<open>startOnboarding\<close> with an event leaves the pointer at
  the event's coordinates minus the constant 16.
\<close>

lemma startOnboarding_seed:
  assumes "startOnboarding ss po (Some e) fo g b = (g', b')"
  shows "\<exists>fm p. g' = Some fm \<and> pointer fm = Some p
           \<and> currentX p = clientX e - 16 \<and> currentY p = clientY e - 16"
proof -
  define fm0 where "fm0 = (case g of None \<Rightarrow> new_FlowManager po fo | Some m \<Rightarrow> m)"
  define fm1 where "fm1 = fm_setInitialPosition (clientX e - 16) (clientY e - 16) fm0 b"
  obtain p1 where p1: "pointer fm1 = Some p1" "currentX p1 = clientX e - 16"
      "currentY p1 = clientY e - 16"
    by (simp add: fm1_def fm_setInitialPosition_def setInitialPosition_def Let_def)
  obtain fm2 b2 where st: "start ss fm1 b = (fm2, b2)"
    by (cases "start ss fm1 b") blast
  have g': "g' = Some fm2"
    using assms st by (simp add: startOnboarding_def fm0_def fm1_def Let_def)
  have keep: "map_option currentX (pointer fm2) = Some (clientX e - 16)
            \<and> map_option currentY (pointer fm2) = Some (clientY e - 16)"
  proof (cases "\<exists>xs. ss = StepsArray xs \<and> xs \<noteq> []")
    case False
    then have "fm2 = fm1"
      using st by (auto simp: start_def split: steps_arg.splits if_splits)
    then show ?thesis using p1 by simp
  next
    case True
    then obtain xs where ss: "ss = StepsArray xs" "xs \<noteq> []" by blast
    obtain fm4 b4 where run: "runStep fm4 b4 = (fm2, b2)" and same: "pointer fm4 = pointer fm1"
      using st ss p1 by (simp add: start_def Let_def split: if_splits)
    from runStep_keeps_position(1) [OF run] same p1 show ?thesis by simp
  qed
  then show ?thesis using g' by (cases "pointer fm2") auto
qed

section \<open>The claims\<close>

subsection \<open>C1: a second move request while an animation is in flight\<close>




subsection \<open>C2: the seed position of \<open>startOnboarding\<close>\<close>

text \<open>
  C2. The claim is that the pointer is seeded at the event's coordinates minus half the
  configured icon size. With a 36 pixel icon and a click at (100, 100) that is (82, 82);
  the code subtracts the constant 16 and seeds the pointer at (84, 84).
\<close>

theorem startOnboarding_seed_at_36:
  "(case startOnboarding (StepsArray [\<lparr>element = ''#a'', step_note = ''A'', url = None\<rparr>])
           ex_options (Some \<lparr>clientX = 100, clientY = 100\<rparr>) \<lparr>keyboardNavigation = None\<rparr>
           None ex_browser of
      (None, b') \<Rightarrow> False
    | (Some fm, b') \<Rightarrow>
        map_option (\<lambda>p. (currentX p, currentY p, pointerSize (options p))) (pointer fm)
          = Some (84, 84, Some 36)
        \<and> (84 :: real) \<noteq> 100 - 36 / 2)"
  by (simp add: startOnboarding_def start_def runStep.simps fm_setInitialPosition_def
        new_FlowManager_def new_Pointer_def setInitialPosition_def ex_options_def
        ex_browser_def Let_def split_beta showPointer_def moveToElement_def
        needsNavigation_def truthy_def nullish_def or_default_def addKeydownListener_def
        setTimeout_def scrollTo_def ex_rect_def focus_def)

subsection \<open>C3: a step whose element is missing\<close>

text \<open>
  C3 (as amended). When a running flow comes to a step that asks for no navigation and
  whose selector matches no element, it logs the warning for that step and advances at
  once: the result is that of running the next step on the state with the warning
  logged; the warning is in the log, directly after the earlier entries; the index has
  moved past the missing step; the pointer's position is untouched and no animation
  frame is requested; and the only callback and click listener that may have been
  added belong to the later step at which the index has come to rest, whose element
  exists.
\<close>

theorem runStep_missing_element:
  assumes "running fm"
      and "currentStep fm < length (steps fm)"
      and "\<not> needsNavigation (steps fm ! currentStep fm) b"
      and "querySelector b (element (steps fm ! currentStep fm)) = NoMatch"
  shows "(let (fm', b') = runStep fm b;
              w = ElementNotFound (element (steps fm ! currentStep fm)) (currentStep fm + 1)
          in (fm', b') = runStep (fm\<lparr>currentStep := currentStep fm + 1\<rparr>)
                           (b\<lparr>warnings := warnings b @ [w]\<rparr>)
           \<and> (\<exists>ws. warnings b' = warnings b @ [w] @ ws)
           \<and> currentStep fm + 1 \<le> currentStep fm'
           \<and> steps fm' = steps fm
           \<and> map_option currentX (pointer fm') = map_option currentX (pointer fm)
           \<and> map_option currentY (pointer fm') = map_option currentY (pointer fm)
           \<and> frames b' = frames b
           \<and> ((timeouts b' = timeouts b \<and> clickListeners b' = clickListeners b)
              \<or> (\<exists>el. currentStep fm' < length (steps fm)
                    \<and> querySelector b (element (steps fm ! currentStep fm')) = Match el
                    \<and> timeouts b' = timeouts b
                         @ [(300, MoveTimeout el (Some (step_note (steps fm ! currentStep fm')))
                                    (currentStep fm' = 0) (innerWidth b) (innerHeight b))]
                    \<and> clickListeners b' = clickListeners b @ [el])))"
proof -
  let ?w = "ElementNotFound (element (steps fm ! currentStep fm)) (currentStep fm + 1)"
  obtain fm' b' where res: "runStep fm b = (fm', b')"
    by (cases "runStep fm b") blast
  have "runStep fm b = advanceStep fm (warn ?w b)"
    using assms by (subst runStep.simps) (simp add: Let_def)
  with res have adv: "advanceStep fm (warn ?w b) = (fm', b')"
    by simp
  then have nxt: "runStep (fm\<lparr>currentStep := currentStep fm + 1\<rparr>)
                    (b\<lparr>warnings := warnings b @ [?w]\<rparr>) = (fm', b')"
    by (simp add: advanceStep.simps warn_def)
  from runStep_effects(2) [OF adv] runStep_keeps_position(2) [OF adv] nxt res
  show ?thesis
    by (auto simp: warn_def Let_def)
qed

theorem runStep_missing_element_witness:
  "running ex_flow \<and> currentStep ex_flow < length (steps ex_flow)
   \<and> \<not> needsNavigation (steps ex_flow ! currentStep ex_flow) ex_flow_browser
   \<and> querySelector ex_flow_browser (element (steps ex_flow ! currentStep ex_flow)) = NoMatch
   \<and> runStep ex_flow ex_flow_browser =
       runStep (ex_flow\<lparr>currentStep := 1\<rparr>)
         (ex_flow_browser\<lparr>warnings := [ElementNotFound ''#missing'' 1]\<rparr>)
   \<and> currentStep (fst (runStep ex_flow ex_flow_browser)) = 1
   \<and> warnings (snd (runStep ex_flow ex_flow_browser)) = [ElementNotFound ''#missing'' 1]
   \<and> timeouts (snd (runStep ex_flow ex_flow_browser))
       = [(300, MoveTimeout 0 (Some ''A'') False 1024 768)]
   \<and> clickListeners (snd (runStep ex_flow ex_flow_browser)) = [0]"
proof -
  have h: "running ex_flow" "currentStep ex_flow < length (steps ex_flow)"
      "\<not> needsNavigation (steps ex_flow ! currentStep ex_flow) ex_flow_browser"
      "querySelector ex_flow_browser (element (steps ex_flow ! currentStep ex_flow)) = NoMatch"
    by (simp_all add: ex_flow_def ex_flow_browser_def ex_browser_def needsNavigation_def
          truthy_def)
  have next_step: "runStep (ex_flow\<lparr>currentStep := 1\<rparr>)
         (ex_flow_browser\<lparr>warnings := [ElementNotFound ''#missing'' 1]\<rparr>)
       = (ex_flow\<lparr>currentStep := 1,
                   pointer := Some ((new_Pointer ex_options ex_browser)
                     \<lparr>pointerEl := (pointerEl (new_Pointer ex_options ex_browser))
                        \<lparr>p_display := ''block''\<rparr>\<rparr>)\<rparr>,
          ex_flow_browser\<lparr>warnings := [ElementNotFound ''#missing'' 1],
            scrollToCalls := [- 150],
            timeouts := [(300, MoveTimeout 0 (Some ''A'') False 1024 768)],
            clickListeners := [0]\<rparr>)"
    by (subst runStep.simps)
       (simp add: ex_flow_def ex_flow_browser_def ex_browser_def needsNavigation_def
          truthy_def Let_def showPointer_def moveToElement_def new_Pointer_def
          setTimeout_def scrollTo_def ex_rect_def)
  have e: "element (steps ex_flow ! currentStep ex_flow) = ''#missing''"
      "currentStep ex_flow = 0" "warnings ex_flow_browser = []"
    by (simp_all add: ex_flow_def ex_flow_browser_def ex_browser_def)
  have "runStep ex_flow ex_flow_browser =
          runStep (ex_flow\<lparr>currentStep := 1\<rparr>)
            (ex_flow_browser\<lparr>warnings := [ElementNotFound ''#missing'' 1]\<rparr>)"
    using runStep_missing_element [OF h] e
    by (simp add: Let_def split_beta)
  with h next_step show ?thesis
    by simp
qed

text \<open>
  The claim as written speaks of every flow whose current step matches no element. A
  step that names another page is not looked up at all: the flow assigns the address and
  waits for the page to load, logging nothing and leaving the index where it was.
\<close>

theorem runStep_missing_element_url_counterexample:
  "running ex_nav_flow
   \<and> currentStep ex_nav_flow = 0
   \<and> length (steps ex_nav_flow) = 1
   \<and> querySelector ex_flow_browser (element (steps ex_nav_flow ! 0)) = NoMatch
   \<and> warnings ex_flow_browser = []
   \<and> warnings (snd (runStep ex_nav_flow ex_flow_browser)) = []
   \<and> currentStep (fst (runStep ex_nav_flow ex_flow_browser)) = 0
   \<and> hrefAssignments (snd (runStep ex_nav_flow ex_flow_browser)) = [''/tour'']"
  by (subst (1 2 3) runStep.simps)
     (simp add: ex_nav_flow_def ex_flow_def ex_flow_browser_def ex_browser_def
        needsNavigation_def truthy_def Let_def)

subsection \<open>C4: \<open>start\<close> without steps\<close>

text \<open>
  C4. Called with something that is not an array, or with an empty array, \<open>start\<close>
  logs the warning and does nothing else: the flow manager is returned as it was (steps,
  index, running flag, pointer, saved scroll value and keyboard handler), and the
  browser state differs in the warning log only.
\<close>

theorem start_rejects_no_steps:
  assumes "arg = NotAnArray \<or> arg = StepsArray []"
  shows "start arg fm b = (fm, b\<lparr>warnings := warnings b @ [NoStepsProvided]\<rparr>)"
  using assms by (auto simp: start_def warn_def)

theorem start_rejects_no_steps_witness:
  "start NotAnArray ex_flow ex_flow_browser
     = (ex_flow, ex_flow_browser\<lparr>warnings := [NoStepsProvided]\<rparr>)
   \<and> start (StepsArray []) ex_flow ex_flow_browser
     = (ex_flow, ex_flow_browser\<lparr>warnings := [NoStepsProvided]\<rparr>)"
  using start_rejects_no_steps [of NotAnArray ex_flow ex_flow_browser]
    start_rejects_no_steps [of "StepsArray []" ex_flow ex_flow_browser]
  by (simp add: ex_flow_browser_def ex_browser_def)

subsection \<open>C5: \<open>stop\<close>\<close>

text \<open>
  C5. \<open>stop\<close> is idempotent: a second call on the state the first one leaves changes
  nothing. Each call clears the running flag, hides the pointer when there is one (the
  pointer element and the note both end with \<open>display\<close> \<open>none\<close>, by the pointer's own
  \<open>hide\<close>), writes the saved scroll value back to the body (when one is saved) and
  forgets it, and detaches and forgets the keyboard handler. Advancing past the last
  step ends in \<open>stop\<close>.
\<close>

theorem stop_idempotent:
  "(let (fm1, b1) = stop fm b
    in stop fm1 b1 = (fm1, b1)
     \<and> \<not> running fm1
     \<and> pointer fm1 = map_option hide (pointer fm)
     \<and> (case pointer fm1 of
          None \<Rightarrow> pointer fm = None
        | Some q \<Rightarrow> p_display (pointerEl q) = ''none'' \<and> n_display (noteEl q) = ''none'')
     \<and> bodyOverflow b1 = (case prevOverflow fm of Some v \<Rightarrow> v | None \<Rightarrow> bodyOverflow b)
     \<and> prevOverflow fm1 = None
     \<and> keyHandler fm1 = None
     \<and> keydownListeners b1 =
         (case keyHandler fm of Some h \<Rightarrow> removeAll h (keydownListeners b)
                              | None \<Rightarrow> keydownListeners b))
   \<and> (length (steps fm) \<le> currentStep fm + 1 \<longrightarrow>
        advanceStep fm b = stop (fm\<lparr>currentStep := currentStep fm + 1\<rparr>) b)"
proof -
  have once: "(let (fm1, b1) = stop fm b
    in stop fm1 b1 = (fm1, b1)
     \<and> \<not> running fm1
     \<and> pointer fm1 = map_option hide (pointer fm)
     \<and> (case pointer fm1 of
          None \<Rightarrow> pointer fm = None
        | Some q \<Rightarrow> p_display (pointerEl q) = ''none'' \<and> n_display (noteEl q) = ''none'')
     \<and> bodyOverflow b1 = (case prevOverflow fm of Some v \<Rightarrow> v | None \<Rightarrow> bodyOverflow b)
     \<and> prevOverflow fm1 = None
     \<and> keyHandler fm1 = None
     \<and> keydownListeners b1 =
         (case keyHandler fm of Some h \<Rightarrow> removeAll h (keydownListeners b)
                              | None \<Rightarrow> keydownListeners b))"
    by (cases "pointer fm"; cases "prevOverflow fm"; cases "keyHandler fm")
       (simp_all add: stop_def removeKeydownListener_def hide_hide, simp_all add: hide_def)
  have last: "advanceStep fm b = stop (fm\<lparr>currentStep := currentStep fm + 1\<rparr>) b"
    if "length (steps fm) \<le> currentStep fm + 1"
    using that by (simp add: advanceStep.simps) (subst runStep.simps, simp)
  from once last show ?thesis by blast
qed

theorem stop_idempotent_witness:
  "stop (fst (stop ex_flow ex_flow_browser)) (snd (stop ex_flow ex_flow_browser))
     = stop ex_flow ex_flow_browser
   \<and> \<not> running (fst (stop ex_flow ex_flow_browser))
   \<and> map_option (\<lambda>q. (p_display (pointerEl q), n_display (noteEl q)))
        (pointer (fst (stop ex_flow ex_flow_browser))) = Some (''none'', ''none'')
   \<and> bodyOverflow (snd (stop ex_flow ex_flow_browser)) = ''auto''
   \<and> keydownListeners (snd (stop ex_flow ex_flow_browser)) = []
   \<and> length (steps (ex_flow\<lparr>currentStep := 1\<rparr>)) \<le> currentStep (ex_flow\<lparr>currentStep := 1\<rparr>) + 1
   \<and> advanceStep (ex_flow\<lparr>currentStep := 1\<rparr>) ex_flow_browser
       = stop (ex_flow\<lparr>currentStep := 2\<rparr>) ex_flow_browser"
proof -
  have e: "prevOverflow ex_flow = Some ''auto''" "keyHandler ex_flow = Some 0"
      "keydownListeners ex_flow_browser = [0]" "length (steps ex_flow) = 2"
      "pointer ex_flow = Some (new_Pointer ex_options ex_browser)"
    by (simp_all add: ex_flow_def ex_flow_browser_def ex_browser_def)
  from stop_idempotent [of ex_flow ex_flow_browser]
    stop_idempotent [of "ex_flow\<lparr>currentStep := 1\<rparr>" ex_flow_browser] e
  show ?thesis
    by (simp add: Let_def split_beta numeral_2_eq_2 hide_def)
qed

subsection \<open>C6: \<open>hide\<close> then \<open>show\<close>\<close>

text \<open>
  C6 (as amended). \<open>hide()\<close> followed by \<open>show()\<close> makes the pointer element visible
  again and leaves the pointer's current position, the element's coordinates and the
  busy flag as they were. \<open>show\<close> turns on the pointer only: right after it the note
  is still not displayed, so no focus is requested and the browser state is unchanged.
\<close>

theorem hide_then_show:
  "(let (p', b') = showPointer (hide p) b
    in p_display (pointerEl p') = ''block''
     \<and> currentX p' = currentX p \<and> currentY p' = currentY p
     \<and> p_left (pointerEl p') = p_left (pointerEl p)
     \<and> p_top (pointerEl p') = p_top (pointerEl p)
     \<and> animating p' = animating p
     \<and> n_display (noteEl p') = ''none''
     \<and> b' = b)"
  by (simp add: showPointer_def hide_def Let_def)

theorem hide_then_show_witness:
  "p_display (pointerEl (fst (showPointer (hide ex_busy) ex_browser))) = ''block''
   \<and> currentX (fst (showPointer (hide ex_busy) ex_browser)) = 512
   \<and> currentY (fst (showPointer (hide ex_busy) ex_browser)) = 384
   \<and> snd (showPointer (hide ex_busy) ex_browser) = ex_browser"
  using hide_then_show [of ex_busy ex_browser]
  by (simp add: Let_def split_beta ex_busy_eval)

text \<open>
  The claim as written has the note visible again as well. A note that was displayed
  before \<open>hide\<close> is still not displayed after \<open>show\<close>.
\<close>

theorem hide_then_show_note_counterexample:
  "n_display (noteEl ex_busy) = ''block''
   \<and> n_display (noteEl (fst (showPointer (hide ex_busy) ex_browser))) = ''none''"
  by (simp add: ex_busy_eval showPointer_def hide_def Let_def)

subsection \<open>C7: \<open>setInitialPosition\<close>\<close>

text \<open>
  C7. \<open>setInitialPosition(x, y)\<close> writes (x, y) into the pointer's current position and
  into the pointer element's coordinates, and nothing else: the busy flag and the note
  are as before, and no browser state is involved, so no animation is started. Through
  the flow manager the same holds for the pointer it owns, created if need be.
\<close>

theorem setInitialPosition_exact:
  "currentX (setInitialPosition x y p) = x
   \<and> currentY (setInitialPosition x y p) = y
   \<and> p_left (pointerEl (setInitialPosition x y p)) = Some x
   \<and> p_top (pointerEl (setInitialPosition x y p)) = Some y
   \<and> animating (setInitialPosition x y p) = animating p
   \<and> noteEl (setInitialPosition x y p) = noteEl p
   \<and> (\<exists>q. pointer (fm_setInitialPosition x y fm b) = Some q
          \<and> currentX q = x \<and> currentY q = y
          \<and> animating q = (case pointer fm of None \<Rightarrow> False | Some q0 \<Rightarrow> animating q0))
   \<and> steps (fm_setInitialPosition x y fm b) = steps fm
   \<and> currentStep (fm_setInitialPosition x y fm b) = currentStep fm
   \<and> running (fm_setInitialPosition x y fm b) = running fm"
  by (cases "pointer fm")
     (simp_all add: setInitialPosition_def fm_setInitialPosition_def Let_def new_Pointer_def)

theorem setInitialPosition_exact_witness:
  "currentX (setInitialPosition 100 200 ex_busy) = 100
   \<and> currentY (setInitialPosition 100 200 ex_busy) = 200
   \<and> animating (setInitialPosition 100 200 ex_busy)"
  using setInitialPosition_exact [of 100 200 ex_busy ex_flow ex_browser]
  by (simp add: ex_busy_eval)

subsection \<open>C8: the easing curve and the end of an animation\<close>

text \<open>
  C8 (as amended). The easing is the double-precision evaluation of the curve \<open>2t\<^sup>2\<close>
  below one half, \<open>-1 + (4 - 2t)t\<close> from there on. For every \<open>t\<close> in [0, 1] its value is
  finite and within \<open>2\<^sup>-\<^sup>4\<^sup>8\<close> of the curve; the curve is symmetric,
  \<open>q(t) + q(1 - t) = 1\<close>, so \<open>ease t + ease (1 - t)\<close> differs from 1 by at most
  \<open>2\<^sup>-\<^sup>4\<^sup>7\<close>; and \<open>ease 0 = 0\<close> and \<open>ease 1 = 1\<close> exactly. Every frame places the pointer
  at start plus delta times the easing of the elapsed fraction. The frame at which the
  elapsed fraction is 1 makes the target the current position, clears the busy flag and
  requests no further frame; with a zero duration that is every frame once the clock
  has moved on from the start time (by at least the smallest positive double, as two
  distinct doubles do). The symmetry is stated for the arguments \<open>t\<close> and \<open>1 - t\<close> as
  given, without rounding the difference.
\<close>

theorem ease_in_out:
  assumes "0 \<le> t" and "t \<le> 1"
  shows "(\<exists>r s. ease (Fin t) = Fin r \<and> ease (Fin (1 - t)) = Fin s
            \<and> \<bar>r - ease_curve t\<bar> \<le> 1 / 2 ^ 48
            \<and> \<bar>r + s - 1\<bar> \<le> 1 / 2 ^ 47)
       \<and> ease_curve t + ease_curve (1 - t) = 1
       \<and> ease (Fin 0) = Fin 0 \<and> ease (Fin 1) = Fin 1
       \<and> p_left (pointerEl (fst (animate a now p b)))
           = px (js_add (Fin (a_startX a)) (js_mul (Fin (a_deltaX a)) (ease (elapsed a now))))
               (p_left (pointerEl p))
       \<and> p_top (pointerEl (fst (animate a now p b)))
           = px (js_add (Fin (a_startY a)) (js_mul (Fin (a_deltaY a)) (ease (elapsed a now))))
               (p_top (pointerEl p))
       \<and> (elapsed a now = Fin 1 \<longrightarrow>
            (let (p', b') = animate a now p b
             in currentX p' = a_x a \<and> currentY p' = a_y a \<and> \<not> animating p'
              \<and> frames b' = frames b))
       \<and> (a_duration a = 0 \<and> a_startTime a + min_subnormal \<le> now \<longrightarrow>
            elapsed a now = Fin 1)"
proof -
  obtain r where r: "ease (Fin t) = Fin r" "\<bar>r - ease_curve t\<bar> \<le> 1 / 2 ^ 48"
    using ease_near_curve [OF assms] by blast
  have "0 \<le> 1 - t" "1 - t \<le> 1"
    using assms by simp_all
  then obtain s where s: "ease (Fin (1 - t)) = Fin s" "\<bar>s - ease_curve (1 - t)\<bar> \<le> 1 / 2 ^ 48"
    using ease_near_curve [of "1 - t"] by blast
  have sym: "ease_curve t + ease_curve (1 - t) = 1"
    by (rule ease_curve_symmetric)
  have "r + s - 1 = (r - ease_curve t) + (s - ease_curve (1 - t))"
    using sym by simp
  then have "\<bar>r + s - 1\<bar> \<le> 1 / 2 ^ 48 + 1 / 2 ^ 48"
    using r(2) s(2) by linarith
  then have near: "\<bar>r + s - 1\<bar> \<le> 1 / 2 ^ 47"
    by simp
  have placed: "p_left (pointerEl (fst (animate a now p b)))
           = px (js_add (Fin (a_startX a)) (js_mul (Fin (a_deltaX a)) (ease (elapsed a now))))
               (p_left (pointerEl p))"
      "p_top (pointerEl (fst (animate a now p b)))
           = px (js_add (Fin (a_startY a)) (js_mul (Fin (a_deltaY a)) (ease (elapsed a now))))
               (p_top (pointerEl p))"
    by (simp_all add: animate_def Let_def split_beta)
  have completes: "(let (p', b') = animate a now p b
             in currentX p' = a_x a \<and> currentY p' = a_y a \<and> \<not> animating p'
              \<and> frames b' = frames b)"
    if "elapsed a now = Fin 1"
    using that by (simp add: animate_def Let_def split_beta focus_def setTimeout_def)
  have instant: "elapsed a now = Fin 1"
    if "a_duration a = 0 \<and> a_startTime a + min_subnormal \<le> now"
    using that by (intro elapsed_zero_duration) simp_all
  from r s near sym ease_ends placed completes instant show ?thesis
    by blast
qed

theorem ease_in_out_witness:
  "(0 :: real) \<le> 1 / 4 \<and> (1 / 4 :: real) \<le> 1
   \<and> ease (Fin 0) = Fin 0 \<and> ease (Fin 1) = Fin 1
   \<and> elapsed ex_animation 400 = Fin 1
   \<and> p_left (pointerEl (fst (animate ex_animation 400 ex_busy ex_browser))) = Some 164
   \<and> p_top (pointerEl (fst (animate ex_animation 400 ex_busy ex_browser))) = Some 8
   \<and> currentX (fst (animate ex_animation 400 ex_busy ex_browser)) = 164
   \<and> currentY (fst (animate ex_animation 400 ex_busy ex_browser)) = 8
   \<and> \<not> animating (fst (animate ex_animation 400 ex_busy ex_browser))
   \<and> frames (snd (animate ex_animation 400 ex_busy ex_browser)) = []
   \<and> a_duration ex_instant = 0 \<and> a_startTime ex_instant + min_subnormal \<le> 16
   \<and> elapsed ex_instant 16 = Fin 1
   \<and> \<not> animating (fst (animate ex_instant 16 ex_busy ex_browser))"
proof -
  have h: "(0 :: real) \<le> 1 / 4" "(1 / 4 :: real) \<le> 1"
    by simp_all
  have full: "elapsed ex_animation 400 = Fin 1"
    by (simp add: elapsed_def js_sub_def js_min_def ex_animation_def fl_400 fl_one)
  have zero: "a_duration ex_instant = 0" "a_startTime ex_instant + min_subnormal \<le> 16"
    by (simp_all add: ex_instant_def ex_animation_def min_subnormal_def)
  have a: "a_x ex_animation = 164" "a_y ex_animation = 8" "frames ex_browser = []"
      "a_startX ex_animation = 512" "a_deltaX ex_animation = - 348"
      "a_startY ex_animation = 384" "a_deltaY ex_animation = - 376"
    by (simp_all add: ex_animation_def ex_browser_def)
  from ease_in_out [OF h, of ex_animation 400 ex_busy ex_browser]
    ease_in_out [OF h, of ex_instant 16 ex_busy ex_browser] h full zero a
  show ?thesis
    by (simp add: split_beta px_def fl_one fl_164 fl_8 fl_minus_348 fl_minus_376)
qed

text \<open>
  The claim as written has the symmetry exact. In the code's arithmetic it is not: at
  the double written \<open>0.1\<close> the easing is \<open>0.020000000000000004\<close>, \<open>1 - 0.1\<close> is the
  double written \<open>0.9\<close>, whose easing is \<open>0.9800000000000002\<close>, and their sum is
  \<open>1 + 2\<^sup>-\<^sup>5\<^sup>2\<close>.
\<close>

theorem ease_symmetry_counterexample:
  "0 \<le> ex_tenth \<and> ex_tenth \<le> 1
   \<and> ease (Fin ex_tenth) = Fin (1441151880758559 / 72057594037927936)
   \<and> js_sub (Fin 1) (Fin ex_tenth) = Fin (8106479329266893 / 9007199254740992)
   \<and> ease (js_sub (Fin 1) (Fin ex_tenth)) = Fin (4413527634823087 / 4503599627370496)
   \<and> js_add (ease (Fin ex_tenth)) (ease (js_sub (Fin 1) (Fin ex_tenth)))
       = Fin (1 + 1 / 2 ^ 52)
   \<and> Fin (1 + 1 / 2 ^ 52) \<noteq> Fin 1"
proof -
  have t1: "fl (2 * ex_tenth) = Fin (3602879701896397 / 18014398509481984)"
    unfolding ex_tenth_def by (subst fl_eval [where k = 55]) (simp_all add: rne_def)
  have t2: "fl (3602879701896397 / 18014398509481984 * ex_tenth)
              = Fin (1441151880758559 / 72057594037927936)"
    unfolding ex_tenth_def by (subst fl_eval [where k = 58]) (simp_all add: rne_def)
  have low: "ease (Fin ex_tenth) = Fin (1441151880758559 / 72057594037927936)"
    using t1 t2 by (simp add: ease_def) (simp add: ex_tenth_def)
  have s0: "fl (1 + - ex_tenth) = Fin (8106479329266893 / 9007199254740992)"
    unfolding ex_tenth_def by (subst fl_eval [where k = 53]) (simp_all add: rne_def)
  then have s: "js_sub (Fin 1) (Fin ex_tenth) = Fin (8106479329266893 / 9007199254740992)"
    by (simp add: js_sub_def)
  have u1: "fl (2 * (8106479329266893 / 9007199254740992))
              = Fin (8106479329266893 / 4503599627370496)"
    by (subst fl_eval [where k = 52]) (simp_all add: rne_def)
  have u2: "fl (4 + - (8106479329266893 / 4503599627370496))
              = Fin (2476979795053773 / 1125899906842624)"
    by (subst fl_eval [where k = 51]) (simp_all add: rne_def)
  have u3: "fl (2476979795053773 / 1125899906842624 * (8106479329266893 / 9007199254740992))
              = Fin (8917127262193583 / 4503599627370496)"
    by (subst fl_eval [where k = 52]) (simp_all add: rne_def)
  have u4: "fl (- 1 + 8917127262193583 / 4503599627370496)
              = Fin (4413527634823087 / 4503599627370496)"
    by (subst fl_eval [where k = 53]) (simp_all add: rne_def)
  have high: "ease (Fin (8106479329266893 / 9007199254740992))
                = Fin (4413527634823087 / 4503599627370496)"
    unfolding ease_def js_sub_def
    by (simp only: js_lt.simps js_mul.simps js_add.simps js_neg.simps u1 u2 u3 u4) simp
  have sum: "fl (1441151880758559 / 72057594037927936 + 4413527634823087 / 4503599627370496)
               = Fin (1 + 1 / 2 ^ 52)"
    by (subst fl_eval [where k = 52]) (simp_all add: rne_def)
  have "0 \<le> ex_tenth" "ex_tenth \<le> 1"
    by (simp_all add: ex_tenth_def)
  with low s high sum show ?thesis
    by (simp only: js_add.simps) simp
qed

subsection \<open>C9: the keyboard handler after \<open>stop\<close>\<close>

text \<open>
  C9. The keyboard handler looks at the running flag first. On the flow manager that
  \<open>stop\<close> leaves, it changes nothing, for every key (Enter, ArrowRight, ArrowLeft and
  Escape among them) and every later browser state, whether or not a listener is still
  attached there.
\<close>

theorem keyHandler_after_stop:
  "(let (fm', b') = stop fm b
    in \<not> running fm' \<and> keyHandler_body key fm' b'' = (fm', b''))"
  using stop_not_running [of fm b]
  by (simp add: split_beta keyHandler_body_idle)

theorem keyHandler_after_stop_witness:
  "keyHandler_body ''Enter'' (fst (stop ex_flow ex_flow_browser)) ex_flow_browser
     = (fst (stop ex_flow ex_flow_browser), ex_flow_browser)
   \<and> keyHandler_body ''Escape'' (fst (stop ex_flow ex_flow_browser)) ex_flow_browser
     = (fst (stop ex_flow ex_flow_browser), ex_flow_browser)
   \<and> keydownListeners ex_flow_browser = [0]"
  using keyHandler_after_stop [of ex_flow ex_flow_browser "''Enter''" ex_flow_browser]
    keyHandler_after_stop [of ex_flow ex_flow_browser "''Escape''" ex_flow_browser]
  by (simp add: split_beta ex_flow_browser_def ex_browser_def)

subsection \<open>C10: the lower clamp wins\<close>

text \<open>
  C10. The lower clamp is applied last, so the target of the pointer is at least 8 in
  both axes for every rectangle, viewport, icon size and note height. In a viewport
  narrower (or lower) than the icon plus both margins the coordinate is exactly 8 and
  lies beyond the upper bound, viewport minus icon minus margin. These are the
  coordinates the callback of \<open>moveToElement\<close> hands to the animation it starts when
  the pointer is idle.
\<close>

theorem pointerTarget_lower_clamp:
  "(let (x, y, flip) = pointerTarget r vw vh ps nh
    in 8 \<le> x \<and> 8 \<le> y
     \<and> (vw < ps + 2 * 8 \<longrightarrow> x = 8 \<and> vw - ps - 8 < x)
     \<and> (vh < ps + 2 * 8 \<longrightarrow> y = 8 \<and> vh - ps - 8 < y))
   \<and> (\<not> animating p \<longrightarrow>
        (\<exists>a. frames (snd (moveToElement_timeout target note isFirstStep vw vh p b))
                = frames b @ [a]
            \<and> 8 \<le> a_x a \<and> 8 \<le> a_y a
            \<and> (a_x a, a_y a, a_flip a) =
                pointerTarget (getBoundingClientRect b target) vw vh
                  (nullish (pointerSize (options p)) 32)
                  (if truthy note \<and> snd (noteMetrics b (the note)) \<noteq> 0
                   then snd (noteMetrics b (the note)) else 48)))"
proof -
  have bounds: "(let (x, y, flip) = pointerTarget r vw vh ps nh
    in 8 \<le> x \<and> 8 \<le> y
     \<and> (vw < ps + 2 * 8 \<longrightarrow> x = 8 \<and> vw - ps - 8 < x)
     \<and> (vh < ps + 2 * 8 \<longrightarrow> y = 8 \<and> vh - ps - 8 < y))" for r vw vh ps nh
    by (auto simp: pointerTarget_def Let_def)
  have started: "\<exists>a. frames (snd (moveToElement_timeout target note isFirstStep vw vh p b))
                = frames b @ [a]
            \<and> 8 \<le> a_x a \<and> 8 \<le> a_y a
            \<and> (a_x a, a_y a, a_flip a) =
                pointerTarget (getBoundingClientRect b target) vw vh
                  (nullish (pointerSize (options p)) 32)
                  (if truthy note \<and> snd (noteMetrics b (the note)) \<noteq> 0
                   then snd (noteMetrics b (the note)) else 48)"
    if idle: "\<not> animating p"
  proof -
    let ?nh = "if truthy note \<and> snd (noteMetrics b (the note)) \<noteq> 0
               then snd (noteMetrics b (the note)) else 48"
    let ?t = "pointerTarget (getBoundingClientRect b target) vw vh
                (nullish (pointerSize (options p)) 32) ?nh"
    obtain x y fl where t: "?t = (x, y, fl)"
      by (cases ?t) auto
    from bounds [of "getBoundingClientRect b target" vw vh
        "nullish (pointerSize (options p)) 32" ?nh] t
    have low: "8 \<le> x" "8 \<le> y" by simp_all
    have "\<exists>a. frames (snd (moveToElement_timeout target note isFirstStep vw vh p b))
                = frames b @ [a] \<and> a_x a = x \<and> a_y a = y \<and> a_flip a = fl"
      using idle t
      by (auto simp: moveToElement_timeout_def animateTo_def Let_def split_beta
            requestAnimationFrame_def offsetHeight_def measureNote_def)
    with low t show ?thesis by auto
  qed
  from bounds started show ?thesis by blast
qed

theorem pointerTarget_lower_clamp_witness:
  "pointerTarget ex_rect 40 768 32 48 = (8, 8, False)
   \<and> (40 :: real) < 32 + 2 * 8 \<and> (40 :: real) - 32 - 8 < 8
   \<and> \<not> animating (new_Pointer ex_options ex_browser)"
  using pointerTarget_lower_clamp [of ex_rect 40 768 32 48 "new_Pointer ex_options ex_browser"
      0 "Some ''A''" False ex_browser]
  by (simp add: pointerTarget_def Let_def ex_rect_def new_Pointer_def)


end
